theory Spec2Isabelle
  imports Complex_Main "HOL-Library.Multiset" "HOL-Library.Option_ord" "HOL-Library.Char_ord"
    "HOL-Library.List_Lexorder"
begin

section \<open>SmartCart: basket mining and hybrid recommendation\<close>

text \<open>
  The Python sources \<^verbatim>\<open>preprocessing.py\<close>, \<^verbatim>\<open>mba_engine.py\<close> and \<^verbatim>\<open>recommender.py\<close>
  are embedded as HOL functions. Conventions used throughout:
  \<^item> float64 and int64 cells are idealised as \<^typ>\<open>real\<close>; NaN is \<open>None\<close> where pandas
    produces it, and minus infinity is \<open>None\<close> in a masked score vector (the order of
    \<^typ>\<open>real option\<close> puts \<open>None\<close> below every \<open>Some x\<close>);
  \<^item> a frozenset of product names is a duplicate-free list of names;
  \<^item> a pandas DataFrame is a record of its row labels, column labels and rows of cells;
  \<^item> a raised exception is the left injection of a sum type.
\<close>

subsection \<open>Python and pandas helpers\<close>

datatype py_error = ValueError | TypeError | AttributeError

record 'a dataframe =
  df_index :: "int list"
  df_columns :: "string list"
  df_values :: "'a list list"

text \<open>The slice \<^verbatim>\<open>xs[:n]\<close>, also \<^verbatim>\<open>head(n)\<close>: a negative \<open>n\<close> drops the last \<open>-n\<close> elements.\<close>

definition py_take :: "int \<Rightarrow> 'a list \<Rightarrow> 'a list" where
  "py_take n xs = (if 0 \<le> n then take (nat n) xs else take (length xs - nat (- n)) xs)"

text \<open>The slice \<^verbatim>\<open>xs[a:b]\<close> with Python's clamping of negative and large bounds.\<close>

definition py_bound :: "nat \<Rightarrow> int \<Rightarrow> nat" where
  "py_bound len i = (if i < 0 then nat (int len + i) else min (nat i) len)"

definition py_slice :: "int \<Rightarrow> int \<Rightarrow> 'a list \<Rightarrow> 'a list" where
  "py_slice a b xs =
     (let lo = py_bound (length xs) a; hi = py_bound (length xs) b
      in take (hi - lo) (drop lo xs))"

text \<open>
  \<^verbatim>\<open>sorted(xs, key=f, reverse=True)\<close> and a descending pandas sort keep equal keys in
  their original order.
\<close>

definition sort_desc :: "('a \<Rightarrow> real) \<Rightarrow> 'a list \<Rightarrow> 'a list" where
  "sort_desc f xs = sort_key (\<lambda>x. - f x) xs"

subsection \<open>Association rules and the rule query layer (\<^verbatim>\<open>mba_engine.py\<close>)\<close>

text \<open>
  One row of the rules table. Of the numeric columns computed by the mining library the
  model keeps the ones the program reads or can sort by.
\<close>

record rule =
  antecedents :: "string list"
  consequents :: "string list"
  antecedent_support :: real
  consequent_support :: real
  support :: real
  confidence :: real
  lift :: real

record mba_engine =
  min_support :: real
  min_confidence :: real
  frequent_itemsets :: "(real \<times> string list) list option"
  rules :: "rule list option"
  basket_df :: "int dataframe option"

definition MBAEngine :: "real \<Rightarrow> real \<Rightarrow> mba_engine" where
  "MBAEngine ms mc =
     \<lparr>min_support = ms, min_confidence = mc, frequent_itemsets = None, rules = None,
      basket_df = None\<rparr>"

text \<open>The numeric column of a rule selected by name; \<open>None\<close> for a name that is no numeric column.\<close>

definition rule_column :: "string \<Rightarrow> (rule \<Rightarrow> real) option" where
  "rule_column m =
     (if m = ''support'' then Some support
      else if m = ''confidence'' then Some confidence
      else if m = ''lift'' then Some lift
      else if m = ''antecedent support'' then Some antecedent_support
      else if m = ''consequent support'' then Some consequent_support
      else None)"

definition nlargest :: "int \<Rightarrow> (rule \<Rightarrow> real) \<Rightarrow> rule list \<Rightarrow> rule list" where
  "nlargest n f rs = (if n \<le> 0 then [] else take (nat n) (sort_desc f rs))"

definition nsmallest :: "int \<Rightarrow> (rule \<Rightarrow> real) \<Rightarrow> rule list \<Rightarrow> rule list" where
  "nsmallest n f rs = (if n \<le> 0 then [] else take (nat n) (sort_key f rs))"

text \<open>
  \<^verbatim>\<open>get_top_rules\<close>: an absent or empty rule table gives an empty table. A metric that
  names one of the two set-valued columns cannot be ordered and raises; any other
  unknown name falls back to lift.
\<close>

definition get_top_rules :: "mba_engine \<Rightarrow> int \<Rightarrow> string \<Rightarrow> bool \<Rightarrow> py_error + rule list" where
  "get_top_rules self n metric ascending =
     (case rules self of
        None \<Rightarrow> Inr []
      | Some rs \<Rightarrow>
          if length rs = 0 then Inr []
          else if metric = ''antecedents'' \<or> metric = ''consequents'' then Inl TypeError
          else
            (let f = (case rule_column metric of None \<Rightarrow> lift | Some g \<Rightarrow> g)
             in Inr (if \<not> ascending then nlargest n f rs else nsmallest n f rs)))"

record product_rec =
  pr_product :: string
  pr_confidence :: real
  pr_lift :: real
  pr_support :: real

text \<open>
  The inner loop of \<^verbatim>\<open>get_product_recommendations\<close> over the consequents of one rule.
  The result carries the list built so far and the products seen; the length test that
  breaks the loop is made only right after an append, as in the source.
\<close>

fun walk_consequents ::
  "string \<Rightarrow> int \<Rightarrow> rule \<Rightarrow> string list \<Rightarrow> product_rec list \<Rightarrow> string set
     \<Rightarrow> product_rec list \<times> string set" where
  "walk_consequents product n r [] recs seen = (recs, seen)"
| "walk_consequents product n r (c # cs) recs seen =
     (if c \<noteq> product \<and> c \<notin> seen then
        (let recs' = recs @ [\<lparr>pr_product = c, pr_confidence = confidence r,
                               pr_lift = lift r, pr_support = support r\<rparr>];
             seen' = insert c seen
         in if n \<le> int (length recs') then (recs', seen')
            else walk_consequents product n r cs recs' seen')
      else walk_consequents product n r cs recs seen)"

fun walk_rules ::
  "string \<Rightarrow> int \<Rightarrow> rule list \<Rightarrow> product_rec list \<Rightarrow> string set \<Rightarrow> product_rec list" where
  "walk_rules product n [] recs seen = recs"
| "walk_rules product n (r # rs) recs seen =
     (case walk_consequents product n r (consequents r) recs seen of
        (recs', seen') \<Rightarrow>
          if n \<le> int (length recs') then recs' else walk_rules product n rs recs' seen')"

definition get_product_recommendations :: "mba_engine \<Rightarrow> string \<Rightarrow> int \<Rightarrow> product_rec list" where
  "get_product_recommendations self product n =
     (case rules self of
        None \<Rightarrow> []
      | Some rs \<Rightarrow>
          if length rs = 0 then []
          else
            (let product_rules = filter (\<lambda>r. product \<in> set (antecedents r)) rs
             in if length product_rules = 0 then []
                else walk_rules product n (sort_desc lift product_rules) [] {}))"

record pair_rec =
  product_a :: string
  product_b :: string
  pair_confidence :: real
  pair_lift :: real
  pair_support :: real

definition get_frequently_bought_together :: "mba_engine \<Rightarrow> int \<Rightarrow> pair_rec list" where
  "get_frequently_bought_together self n =
     (case rules self of
        None \<Rightarrow> []
      | Some rs \<Rightarrow>
          if length rs = 0 then []
          else
            (let pairs =
               map (\<lambda>r. \<lparr>product_a = hd (antecedents r), product_b = hd (consequents r),
                          pair_confidence = confidence r, pair_lift = lift r,
                          pair_support = support r\<rparr>)
                 (filter (\<lambda>r. length (antecedents r) = 1 \<and> length (consequents r) = 1) rs)
             in py_take n (sort_desc pair_lift pairs)))"

record bundle_rec =
  bundle_products :: "string list"
  bundle_support :: real
  bundle_size :: nat

definition get_top_bundles :: "mba_engine \<Rightarrow> int \<Rightarrow> bundle_rec list" where
  "get_top_bundles self n =
     (case frequent_itemsets self of
        None \<Rightarrow> []
      | Some fis \<Rightarrow>
          if length fis = 0 then []
          else
            (let bundles =
               map (\<lambda>(s, items). \<lparr>bundle_products = items, bundle_support = s,
                                   bundle_size = length items\<rparr>)
                 (filter (\<lambda>(s, items). 2 \<le> length items) fis)
             in py_take n (sort_desc bundle_support bundles)))"

definition mean :: "real list \<Rightarrow> real" where
  "mean xs = sum_list xs / real (length xs)"

text \<open>\<^verbatim>\<open>get_rules_summary\<close> returns a dictionary: a finite map from key to number.\<close>

definition get_rules_summary :: "mba_engine \<Rightarrow> (string \<rightharpoonup> real)" where
  "get_rules_summary self =
     (let empty_summary =
        [''total_rules'' \<mapsto> 0, ''avg_confidence'' \<mapsto> 0, ''avg_lift'' \<mapsto> 0, ''max_lift'' \<mapsto> 0]
      in case rules self of
        None \<Rightarrow> empty_summary
      | Some rs \<Rightarrow>
          if length rs = 0 then empty_summary
          else
            [''total_rules'' \<mapsto> real (length rs),
             ''avg_confidence'' \<mapsto> mean (map confidence rs),
             ''avg_lift'' \<mapsto> mean (map lift rs),
             ''max_lift'' \<mapsto> Max (set (map lift rs)),
             ''min_confidence'' \<mapsto> Min (set (map confidence rs)),
             ''max_confidence'' \<mapsto> Max (set (map confidence rs))])"

text \<open>The rule set is empty or absent.\<close>

definition no_rules :: "mba_engine \<Rightarrow> bool" where
  "no_rules self = (case rules self of None \<Rightarrow> True | Some rs \<Rightarrow> rs = [])"

subsection \<open>Transactions and the two matrices (\<^verbatim>\<open>preprocessing.py\<close>)\<close>

record transaction =
  order_id :: int
  tx_product :: string
  quantity :: real
  customer_id :: int

text \<open>
  \<^verbatim>\<open>df.groupby([key, 'product'])['quantity'].sum()\<close>: the summed quantity of one
  (key, product) group, \<open>None\<close> when the group has no row.
\<close>

definition group_sum ::
  "(transaction \<Rightarrow> int) \<Rightarrow> transaction list \<Rightarrow> int \<Rightarrow> string \<Rightarrow> real option" where
  "group_sum key df k p =
     (let g = filter (\<lambda>t. key t = k \<and> tx_product t = p) df
      in if g = [] then None else Some (sum_list (map quantity g)))"

text \<open>
  \<^verbatim>\<open>unstack()\<close>: rows are the sorted distinct keys, columns the sorted distinct
  products, and a cell without a group is NaN.
\<close>

definition unstack :: "(transaction \<Rightarrow> int) \<Rightarrow> transaction list \<Rightarrow> real option dataframe" where
  "unstack key df =
     (let idx = sort (remdups (map key df)); cols = sort (remdups (map tx_product df))
      in \<lparr>df_index = idx, df_columns = cols,
          df_values = map (\<lambda>k. map (\<lambda>p. group_sum key df k p) cols) idx\<rparr>)"

definition fillna :: "'a \<Rightarrow> 'a option dataframe \<Rightarrow> 'a dataframe" where
  "fillna v d =
     \<lparr>df_index = df_index d, df_columns = df_columns d,
      df_values = map (map (\<lambda>c. case c of None \<Rightarrow> v | Some x \<Rightarrow> x)) (df_values d)\<rparr>"

definition prepare_basket_data :: "transaction list \<Rightarrow> int dataframe" where
  "prepare_basket_data df =
     (let basket = fillna 0 (unstack order_id df)
      in \<lparr>df_index = df_index basket, df_columns = df_columns basket,
          df_values = map (map (\<lambda>x. if 0 < x then 1 else 0)) (df_values basket)\<rparr>)"

definition prepare_user_item_matrix :: "transaction list \<Rightarrow> real dataframe" where
  "prepare_user_item_matrix df = fillna 0 (unstack customer_id df)"

text \<open>The shape invariant of a DataFrame: one row of cells per row label, one cell per column.\<close>

definition wf_df :: "'a dataframe \<Rightarrow> bool" where
  "wf_df d = (length (df_values d) = length (df_index d)
              \<and> list_all (\<lambda>row. length row = length (df_columns d)) (df_values d))"

subsection \<open>Numeric library routines used by the recommender\<close>

definition dot :: "real list \<Rightarrow> real list \<Rightarrow> real" where
  "dot xs ys = sum_list (map2 (*) xs ys)"

text \<open>
  Modelled from the spec: the library routine \<^verbatim>\<open>cosine_similarity\<close> is not among
  the sources. The similarity of two vectors is their dot product over the product of
  their magnitudes, and 0 when either vector has zero magnitude; the routine returns the
  similarity of every pair of rows.
\<close>

definition l2_norm :: "real list \<Rightarrow> real" where
  "l2_norm a = sqrt (dot a a)"

definition cosine :: "real list \<Rightarrow> real list \<Rightarrow> real" where
  "cosine a b = (if l2_norm a = 0 \<or> l2_norm b = 0 then 0 else dot a b / (l2_norm a * l2_norm b))"

definition cosine_similarity :: "real list list \<Rightarrow> real list list" where
  "cosine_similarity X = map (\<lambda>a. map (\<lambda>b. cosine a b) X) X"

text \<open>\<^verbatim>\<open>M.T\<close> for a matrix with \<open>ncols\<close> columns.\<close>

definition np_transpose :: "nat \<Rightarrow> 'a list list \<Rightarrow> 'a list list" where
  "np_transpose ncols M = map (\<lambda>j. map (\<lambda>row. row ! j) M) [0..<ncols]"

text \<open>\<^verbatim>\<open>np.dot(v, M)\<close> for a vector with one entry per row of \<open>M\<close>.\<close>

definition np_dot :: "nat \<Rightarrow> real list \<Rightarrow> real list list \<Rightarrow> real list" where
  "np_dot ncols v M = map (\<lambda>j. sum_list (map2 (\<lambda>x row. x * row ! j) v M)) [0..<ncols]"

text \<open>
  \<^verbatim>\<open>np.argsort\<close>: the positions of a vector in ascending order of their values. Equal
  values are kept in position order here; the library leaves their order open.
\<close>

definition argsort :: "('a::linorder) list \<Rightarrow> nat list" where
  "argsort xs = sort_key (\<lambda>i. xs ! i) [0..<length xs]"

text \<open>\<^verbatim>\<open>np.where(ids == x)[0][0]\<close>, the first position of \<open>x\<close>.\<close>

definition index_of :: "'a \<Rightarrow> 'a list \<Rightarrow> nat" where
  "index_of x xs = length (takeWhile (\<lambda>y. y \<noteq> x) xs)"

text \<open>
  A fitted factor model: the projection of a quantity vector into factor space, which
  may raise, and the item-feature matrix with one row per factor.
\<close>

record nmf =
  nmf_transform :: "real list \<Rightarrow> py_error + real list"
  components :: "real list list"

subsection \<open>The recommender (\<^verbatim>\<open>recommender.py\<close>)\<close>

record recommendation =
  product :: string
  score :: real
  reasoning :: string

record recommender =
  n_components :: int
  n_recommendations :: int
  user_item_matrix :: "real dataframe option"
  model :: "nmf option"
  user_similarity :: "real list list option"
  item_similarity :: "real list list option"
  user_ids :: "int list option"
  item_ids :: "string list option"

definition RecommenderEngine :: "int \<Rightarrow> int \<Rightarrow> recommender" where
  "RecommenderEngine k n =
     \<lparr>n_components = k, n_recommendations = n, user_item_matrix = None, model = None,
      user_similarity = None, item_similarity = None, user_ids = None, item_ids = None\<rparr>"

definition collaborative :: string where
  "collaborative = ''Collaborative filtering based on similar users''"

definition content_based :: string where
  "content_based = ''Content-based: similar to your purchases''"

definition popularity :: string where
  "popularity = ''Popular items: trending products''"

text \<open>
  \<^verbatim>\<open>fit\<close>. The factorisation library is a parameter: \<open>nmf_fit k m\<close> is the model fitted
  with \<open>k\<close> components on \<open>m\<close>, or \<open>None\<close> when the library raised (the source catches
  that). The result is the engine after the call and the exception that left it, if
  any: the maximum of a matrix without cells raises, and so does the similarity routine
  on the non-finite cells that a zero divisor produces. The three assignments before the
  maximum persist in both cases.
\<close>

definition fit ::
  "(int \<Rightarrow> real list list \<Rightarrow> nmf option) \<Rightarrow> recommender \<Rightarrow> real dataframe
     \<Rightarrow> recommender \<times> py_error option" where
  "fit nmf_fit self user_item_df =
     (let self1 = self\<lparr>user_item_matrix := Some user_item_df,
                       user_ids := Some (df_index user_item_df),
                       item_ids := Some (df_columns user_item_df)\<rparr>;
          matrix = df_values user_item_df;
          nrows = length (df_index user_item_df);
          ncols = length (df_columns user_item_df)
      in if concat matrix = [] then (self1, Some ValueError)
         else
           (let d = Max (set (concat matrix)) + 1 / 10 ^ 8
            in if d = 0 then (self1, Some ValueError)
               else
                 (let matrix_normalized = map (map (\<lambda>x. x / d)) matrix;
                      self2 = self1\<lparr>user_similarity :=
                                       Some (cosine_similarity matrix_normalized),
                                     item_similarity :=
                                       Some (cosine_similarity
                                               (np_transpose ncols matrix_normalized))\<rparr>
                  in (self2\<lparr>model :=
                              nmf_fit (min (n_components self) (int (min nrows ncols) - 1))
                                matrix_normalized\<rparr>, None))))"

text \<open>
  The queries read the fields that \<^verbatim>\<open>fit\<close> assigns. \<^verbatim>\<open>fit\<close> assigns the matrix, the
  user ids and the item ids together, and the two similarity matrices together. Where the
  source subscripts, iterates or takes the length of a field that is still \<open>None\<close> the
  model raises \<open>TypeError\<close>, and \<open>AttributeError\<close> where the source reads an attribute of
  it.
\<close>

text \<open>The common tail of both personalised tiers: rank, cut to \<open>n\<close>, keep positive scores.\<close>

definition top_recs :: "string \<Rightarrow> string list \<Rightarrow> real option list \<Rightarrow> int \<Rightarrow> recommendation list" where
  "top_recs why iids scores n =
     concat (map (\<lambda>idx. case scores ! idx of
                          None \<Rightarrow> []
                        | Some s \<Rightarrow>
                            if 0 < s then [\<lparr>product = iids ! idx, score = s, reasoning = why\<rparr>]
                            else [])
                 (py_take n (rev (argsort scores))))"

definition weighted_items :: "real list list \<Rightarrow> real dataframe \<Rightarrow> nat \<Rightarrow> real list" where
  "weighted_items usim uim user_idx =
     np_dot (length (df_columns uim)) (usim ! user_idx) (df_values uim)"

definition mf_scores :: "nmf \<Rightarrow> nat \<Rightarrow> real list \<Rightarrow> py_error + real list" where
  "mf_scores m ncols user_vector =
     (case nmf_transform m user_vector of
        Inl e \<Rightarrow> Inl e
      | Inr user_features \<Rightarrow>
          if length user_features \<noteq> length (components m) then Inl ValueError
          else Inr (np_dot ncols user_features (components m)))"

definition final_scores :: "nmf option \<Rightarrow> nat \<Rightarrow> real list \<Rightarrow> real list \<Rightarrow> real list" where
  "final_scores mdl ncols user_vector weighted =
     (case mdl of
        None \<Rightarrow> weighted
      | Some m \<Rightarrow>
          (case mf_scores m ncols user_vector of
             Inl e \<Rightarrow> weighted
           | Inr mf \<Rightarrow> map2 (\<lambda>w f. 6 / 10 * w + 4 / 10 * f) weighted mf))"

text \<open>\<^verbatim>\<open>final_scores[user_vector > 0] = -np.inf\<close>\<close>

definition mask_purchased :: "real list \<Rightarrow> real list \<Rightarrow> real option list" where
  "mask_purchased user_vector scores =
     map2 (\<lambda>q s. if 0 < q then None else Some s) user_vector scores"

definition content_scores :: "real list list \<Rightarrow> nat \<Rightarrow> real list \<Rightarrow> nat list \<Rightarrow> real list" where
  "content_scores isim nitems user_vector purchased_indices =
     fold (\<lambda>purchased_idx item_scores.
             map2 (+) item_scores
               (map (\<lambda>s. s * user_vector ! purchased_idx) (isim ! purchased_idx)))
          purchased_indices (replicate nitems 0)"

definition get_content_based_recommendations ::
  "recommender \<Rightarrow> int \<Rightarrow> int \<Rightarrow> py_error + recommendation list" where
  "get_content_based_recommendations self cust n =
     (case user_ids self of
        None \<Rightarrow> Inl TypeError
      | Some uids \<Rightarrow>
          if cust \<notin> set uids then Inr []
          else
            (case user_item_matrix self of
               None \<Rightarrow> Inl AttributeError
             | Some uim \<Rightarrow>
                 (let user_idx = index_of cust uids;
                      user_vector = df_values uim ! user_idx;
                      purchased_indices =
                        filter (\<lambda>j. 0 < user_vector ! j) [0..<length user_vector]
                  in if length purchased_indices = 0 then Inr []
                     else
                       (case (item_ids self, item_similarity self) of
                          (Some iids, Some isim) \<Rightarrow>
                            (let item_scores =
                                   content_scores isim (length iids) user_vector
                                     purchased_indices;
                                 masked = map (\<lambda>j. if j \<in> set purchased_indices then None
                                                    else Some (item_scores ! j))
                                            [0..<length item_scores]
                             in Inr (top_recs content_based iids masked n))
                        | _ \<Rightarrow> Inl TypeError))))"

definition column_sums :: "real dataframe \<Rightarrow> real list" where
  "column_sums uim =
     map (\<lambda>j. sum_list (map (\<lambda>row. row ! j) (df_values uim))) [0..<length (df_columns uim)]"

definition get_cold_start_recommendations :: "recommender \<Rightarrow> int \<Rightarrow> recommendation list" where
  "get_cold_start_recommendations self n =
     (case user_item_matrix self of
        None \<Rightarrow> []
      | Some uim \<Rightarrow>
          (let product_popularity = sort_desc snd (zip (df_columns uim) (column_sums uim))
           in map (\<lambda>(p, s). \<lparr>product = p, score = s, reasoning = popularity\<rparr>)
                (py_take n product_popularity)))"

definition get_user_recommendations ::
  "recommender \<Rightarrow> int \<Rightarrow> int option \<Rightarrow> py_error + recommendation list" where
  "get_user_recommendations self cust n_opt =
     (let n = (case n_opt of None \<Rightarrow> n_recommendations self | Some k \<Rightarrow> k)
      in case user_item_matrix self of
           None \<Rightarrow> Inr []
         | Some uim \<Rightarrow>
             (case user_ids self of
                None \<Rightarrow> Inl TypeError
              | Some uids \<Rightarrow>
                  if cust \<notin> set uids then Inr (get_cold_start_recommendations self n)
                  else
                    (case (user_similarity self, item_ids self) of
                       (Some usim, Some iids) \<Rightarrow>
                         (let user_idx = index_of cust uids;
                              user_vector = df_values uim ! user_idx;
                              weighted = weighted_items usim uim user_idx;
                              final = mask_purchased user_vector
                                        (final_scores (model self) (length (df_columns uim))
                                           user_vector weighted);
                              recommendations = top_recs collaborative iids final n
                          in if int (length recommendations) < n then
                               (case get_content_based_recommendations self cust
                                       (n - int (length recommendations)) of
                                  Inl e \<Rightarrow> Inl e
                                | Inr content_recs \<Rightarrow>
                                    Inr (py_take n (recommendations @ content_recs)))
                             else Inr (py_take n recommendations))
                     | _ \<Rightarrow> Inl TypeError)))"

text \<open>\<^verbatim>\<open>get_similar_users\<close> and \<^verbatim>\<open>get_similar_products\<close> return (id, similarity) pairs.\<close>

definition get_similar_users :: "recommender \<Rightarrow> int \<Rightarrow> int \<Rightarrow> py_error + (int \<times> real) list" where
  "get_similar_users self cust n =
     (case user_ids self of
        None \<Rightarrow> Inl TypeError
      | Some uids \<Rightarrow>
          if cust \<notin> set uids then Inr []
          else
            (case user_similarity self of
               None \<Rightarrow> Inl TypeError
             | Some usim \<Rightarrow>
                 (let user_idx = index_of cust uids;
                      user_sim_scores = usim ! user_idx;
                      top_indices = py_slice 1 (n + 1) (rev (argsort user_sim_scores))
                  in Inr (map (\<lambda>idx. (uids ! idx, user_sim_scores ! idx)) top_indices))))"

definition get_similar_products ::
  "recommender \<Rightarrow> string \<Rightarrow> int \<Rightarrow> py_error + (string \<times> real) list" where
  "get_similar_products self prod_name n =
     (case item_ids self of
        None \<Rightarrow> Inl TypeError
      | Some iids \<Rightarrow>
          if prod_name \<notin> set iids then Inr []
          else
            (case item_similarity self of
               None \<Rightarrow> Inl TypeError
             | Some isim \<Rightarrow>
                 (let product_idx = index_of prod_name iids;
                      product_sim_scores = isim ! product_idx;
                      top_indices = py_slice 1 (n + 1) (rev (argsort product_sim_scores))
                  in Inr (map (\<lambda>idx. (iids ! idx, product_sim_scores ! idx)) top_indices))))"

subsection \<open>Fitting the mining engine (\<^verbatim>\<open>MBAEngine.fit\<close>)\<close>

text \<open>
  Modelled from the spec: the itemset miner \<^verbatim>\<open>apriori\<close> and the rule generator
  \<^verbatim>\<open>association_rules\<close> that \<^verbatim>\<open>MBAEngine.fit\<close> calls are not among the sources; the
  definitions below follow the specification's sections on the frequent itemset miner
  and the association rule generator. An itemset is the list of its products in column
  order. A row contains a product when its cell in the product's column is 1.
\<close>

definition row_has :: "string list \<Rightarrow> int list \<Rightarrow> string \<Rightarrow> bool" where
  "row_has cols row p = (p \<in> set cols \<and> row ! index_of p cols = 1)"

text \<open>
  Modelled from the spec: the support of an itemset is the fraction of all orders that
  contain every item of it.
\<close>

definition support_of :: "int dataframe \<Rightarrow> string list \<Rightarrow> real" where
  "support_of basket items =
     real (length (filter (\<lambda>row. list_all (row_has (df_columns basket) row) items)
                     (df_values basket)))
       / real (length (df_values basket))"

text \<open>
  Modelled from the spec: candidates of the next level extend each frequent itemset by
  one product that comes later in column order.
\<close>

definition extend_itemsets :: "string list \<Rightarrow> string list list \<Rightarrow> string list list" where
  "extend_itemsets cols prev =
     concat (map (\<lambda>items. map (\<lambda>p. items @ [p])
                    (filter (\<lambda>p. list_all (\<lambda>q. index_of q cols < index_of p cols) items) cols))
               prev)"

text \<open>
  Modelled from the spec: one level of the level-wise search and the levels after it.
  Candidates with an infrequent subset of the previous size are pruned before counting;
  the survivors with support at least \<open>ms\<close> are kept; the search ends when a level keeps
  nothing or no products remain to extend with.
\<close>

function apriori_levels ::
  "int dataframe \<Rightarrow> real \<Rightarrow> nat \<Rightarrow> string list list \<Rightarrow> (real \<times> string list) list" where
  "apriori_levels basket ms k prev =
     (let cands = filter (\<lambda>c. list_all (\<lambda>x. remove1 x c \<in> set prev) c)
                    (extend_itemsets (df_columns basket) prev);
          kept = filter (\<lambda>(s, c). ms \<le> s) (map (\<lambda>c. (support_of basket c, c)) cands)
      in if kept = [] \<or> length (df_columns basket) \<le> k then kept
         else kept @ apriori_levels basket ms (Suc k) (map snd kept))"
  by pat_completeness auto
termination
  by (relation "measure (\<lambda>(basket, ms, k, prev). length (df_columns basket) - k)") auto

declare apriori_levels.simps [simp del]

text \<open>
  Modelled from the spec: the miner. An empty basket matrix gives the empty result;
  level 1 is the extension of the empty itemset.
\<close>

definition apriori :: "int dataframe \<Rightarrow> real \<Rightarrow> (real \<times> string list) list" where
  "apriori basket ms = (if df_index basket = [] then [] else apriori_levels basket ms 1 [[]])"

text \<open>
  Modelled from the spec: the support of an itemset as recorded in the frequent-itemset
  table, looked up by set equality, \<open>None\<close> when it is not in the table.
\<close>

definition table_support :: "(real \<times> string list) list \<Rightarrow> string list \<Rightarrow> real option" where
  "table_support table X = map_option fst (find (\<lambda>(s, items). set items = set X) table)"

text \<open>
  Modelled from the spec: the rules of one frequent itemset. Every proper non-empty
  subset is an antecedent and the remainder the consequent; confidence is the support of
  the itemset over that of the antecedent, lift is confidence over the support of the
  consequent; a split whose side is not in the table is skipped; a rule is kept when its
  confidence reaches \<open>mc\<close>.
\<close>

definition rules_of_itemset ::
  "(real \<times> string list) list \<Rightarrow> real \<Rightarrow> real \<times> string list \<Rightarrow> rule list" where
  "rules_of_itemset table mc entry =
     (case entry of (sI, items) \<Rightarrow>
        concat (map (\<lambda>A. let C = filter (\<lambda>x. x \<notin> set A) items
                         in case (table_support table A, table_support table C) of
                              (Some sA, Some sC) \<Rightarrow>
                                if mc \<le> sI / sA then
                                  [\<lparr>antecedents = A, consequents = C, antecedent_support = sA,
                                    consequent_support = sC, support = sI,
                                    confidence = sI / sA, lift = sI / sA / sC\<rparr>]
                                else []
                            | _ \<Rightarrow> [])
                  (filter (\<lambda>A. A \<noteq> [] \<and> A \<noteq> items) (subseqs items))))"

text \<open>Modelled from the spec: rules are generated from the itemsets of size at least 2.\<close>

definition association_rules :: "(real \<times> string list) list \<Rightarrow> real \<Rightarrow> rule list" where
  "association_rules table mc =
     concat (map (rules_of_itemset table mc) (filter (\<lambda>(s, items). 2 \<le> length items) table))"

text \<open>
  \<^verbatim>\<open>MBAEngine.fit\<close> itself: mine, then generate rules unless the itemset table is empty,
  in which case the rule table is the empty table.
\<close>

definition mba_fit :: "mba_engine \<Rightarrow> int dataframe \<Rightarrow> mba_engine" where
  "mba_fit self b =
     (let fis = apriori b (min_support self)
      in self\<lparr>basket_df := Some b, frequent_itemsets := Some fis,
              rules := Some (if 0 < length fis then association_rules fis (min_confidence self)
                             else [])\<rparr>)"

subsection \<open>Notions used to state the properties\<close>

text \<open>
  One entry of a fitted similarity matrix (\<open>None\<close> before the matrix exists), and one
  column of a DataFrame.
\<close>

definition user_sim :: "recommender \<Rightarrow> nat \<Rightarrow> nat \<Rightarrow> real option" where
  "user_sim self a b = (case user_similarity self of None \<Rightarrow> None | Some us \<Rightarrow> Some (us ! a ! b))"

definition item_sim :: "recommender \<Rightarrow> nat \<Rightarrow> nat \<Rightarrow> real option" where
  "item_sim self j k = (case item_similarity self of None \<Rightarrow> None | Some s \<Rightarrow> Some (s ! j ! k))"

definition column :: "'a dataframe \<Rightarrow> nat \<Rightarrow> 'a list" where
  "column d j = map (\<lambda>row. row ! j) (df_values d)"

text \<open>A factorisation library call that raises, so that the engine keeps no model.\<close>

definition no_nmf :: "int \<Rightarrow> real list list \<Rightarrow> nmf option" where
  "no_nmf k m = None"

text \<open>Two customers, one of whom only has a line of quantity zero.\<close>

definition txs_zero_customer :: "transaction list" where
  "txs_zero_customer =
     [\<lparr>order_id = 1, tx_product = ''A'', quantity = 0, customer_id = 1\<rparr>,
      \<lparr>order_id = 2, tx_product = ''A'', quantity = 1, customer_id = 2\<rparr>]"

text \<open>
  Customer 1 bought product A; customer 2 bought A and B. No customer has the id 99.
\<close>

definition txs_two_customers :: "transaction list" where
  "txs_two_customers =
     [\<lparr>order_id = 1, tx_product = ''A'', quantity = 1, customer_id = 1\<rparr>,
      \<lparr>order_id = 2, tx_product = ''A'', quantity = 1, customer_id = 2\<rparr>,
      \<lparr>order_id = 2, tx_product = ''B'', quantity = 1, customer_id = 2\<rparr>]"


text \<open>The number of recommendations asked for: the argument, or the engine's default.\<close>

definition requested :: "recommender \<Rightarrow> int option \<Rightarrow> int" where
  "requested self n_opt = (case n_opt of None \<Rightarrow> n_recommendations self | Some k \<Rightarrow> k)"



text \<open>
  The factorisation is non-negative: whenever a model fitted on a matrix yields factor
  scores for the columns of that matrix, none of them is negative.
\<close>

definition nonneg_factors :: "(int \<Rightarrow> real list list \<Rightarrow> nmf option) \<Rightarrow> bool" where
  "nonneg_factors nmf_fit =
     (\<forall>k M m v f. nmf_fit k M = Some m \<longrightarrow> M \<noteq> [] \<longrightarrow>
        mf_scores m (length (hd M)) v = Inr f \<longrightarrow> (\<forall>x\<in>set f. 0 \<le> x))"

text \<open>
  A factor model with a single factor on which every product loads 1 and to which every
  customer projects with weight 1.
\<close>

definition ones_nmf :: "int \<Rightarrow> real list list \<Rightarrow> nmf option" where
  "ones_nmf k M =
     Some \<lparr>nmf_transform = (\<lambda>v. Inr [1]), components = [replicate (length (hd M)) 1]\<rparr>"


text \<open>
  The summed quantity of a product in an order, as the specification words the basket
  cell.
\<close>

definition order_quantity :: "transaction list \<Rightarrow> int \<Rightarrow> string \<Rightarrow> real" where
  "order_quantity df ord p =
     sum_list (map quantity (filter (\<lambda>t. order_id t = ord \<and> tx_product t = p) df))"

text \<open>Two customers with the same purchases: each bought one A and one B.\<close>

definition txs_twins :: "transaction list" where
  "txs_twins =
     [\<lparr>order_id = 1, tx_product = ''A'', quantity = 1, customer_id = 1\<rparr>,
      \<lparr>order_id = 1, tx_product = ''B'', quantity = 1, customer_id = 1\<rparr>,
      \<lparr>order_id = 2, tx_product = ''A'', quantity = 1, customer_id = 2\<rparr>,
      \<lparr>order_id = 2, tx_product = ''B'', quantity = 1, customer_id = 2\<rparr>]"

text \<open>A single transaction line of quantity zero.\<close>

definition txs_zero_line :: "transaction list" where
  "txs_zero_line = [\<lparr>order_id = 1, tx_product = ''A'', quantity = 0, customer_id = 1\<rparr>]"

text \<open>The four orders {A,B}, {A,B}, {A,C}, {B,C} of the specification's example.\<close>

definition txs_four_orders :: "transaction list" where
  "txs_four_orders =
     [\<lparr>order_id = 1, tx_product = ''A'', quantity = 1, customer_id = 1\<rparr>,
      \<lparr>order_id = 1, tx_product = ''B'', quantity = 1, customer_id = 1\<rparr>,
      \<lparr>order_id = 2, tx_product = ''A'', quantity = 1, customer_id = 2\<rparr>,
      \<lparr>order_id = 2, tx_product = ''B'', quantity = 1, customer_id = 2\<rparr>,
      \<lparr>order_id = 3, tx_product = ''A'', quantity = 1, customer_id = 3\<rparr>,
      \<lparr>order_id = 3, tx_product = ''C'', quantity = 1, customer_id = 3\<rparr>,
      \<lparr>order_id = 4, tx_product = ''B'', quantity = 1, customer_id = 4\<rparr>,
      \<lparr>order_id = 4, tx_product = ''C'', quantity = 1, customer_id = 4\<rparr>]"

section \<open>Verified properties\<close>

subsection \<open>Auxiliary facts\<close>

lemma dot_commute: "dot xs ys = dot ys xs"
proof (induction xs arbitrary: ys)
  case Nil
  then show ?case by (simp add: dot_def)
next
  case (Cons x xs)
  then show ?case by (cases ys) (simp_all add: dot_def mult.commute)
qed

lemma dot_self_nonneg: "0 \<le> dot xs xs"
  by (induction xs) (simp_all add: dot_def)

lemma dot_self_zero_iff: "dot xs xs = 0 \<longleftrightarrow> (\<forall>x\<in>set xs. x = 0)"
proof (induction xs)
  case Nil
  then show ?case by (simp add: dot_def)
next
  case (Cons x xs)
  have "0 \<le> dot xs xs" by (rule dot_self_nonneg)
  moreover have "dot (x # xs) (x # xs) = x * x + dot xs xs" by (simp add: dot_def)
  moreover have "x * x + dot xs xs = 0 \<longleftrightarrow> x = 0 \<and> dot xs xs = 0"
    using \<open>0 \<le> dot xs xs\<close>
    by (smt (verit) mult_eq_0_iff zero_le_square)
  ultimately show ?case using Cons.IH by simp
qed

lemma dot_scale: "dot (map (\<lambda>x. x / c) xs) (map (\<lambda>x. x / d) ys) = dot xs ys / (c * d)"
proof (induction xs arbitrary: ys)
  case Nil
  then show ?case by (simp add: dot_def)
next
  case (Cons x xs)
  show ?case
  proof (cases ys)
    case Nil
    then show ?thesis by (simp add: dot_def)
  next
    case (Cons y ys')
    have "dot (map (\<lambda>x. x / c) xs) (map (\<lambda>x. x / d) ys') = dot xs ys' / (c * d)"
      by (rule Cons.IH)
    then show ?thesis using Cons by (simp add: dot_def add_divide_distrib)
  qed
qed

lemma l2_norm_zero_iff: "l2_norm a = 0 \<longleftrightarrow> (\<forall>x\<in>set a. x = 0)"
  by (simp add: l2_norm_def dot_self_zero_iff)

lemma cosine_commute: "cosine a b = cosine b a"
  by (simp add: cosine_def dot_commute mult.commute disj_commute)

lemma cosine_self: "cosine a a = (if \<forall>x\<in>set a. x = 0 then 0 else 1)"
proof (cases "l2_norm a = 0")
  case True
  then show ?thesis by (simp add: cosine_def l2_norm_zero_iff)
next
  case False
  have "l2_norm a * l2_norm a = dot a a"
    by (simp add: l2_norm_def dot_self_nonneg)
  moreover have "dot a a \<noteq> 0" using False by (simp add: l2_norm_def)
  moreover have "\<not> (\<forall>x\<in>set a. x = 0)" using False by (simp add: l2_norm_zero_iff)
  ultimately show ?thesis using False by (simp add: cosine_def)
qed

lemma cosine_scale:
  assumes "d \<noteq> 0"
  shows "cosine (map (\<lambda>x. x / d) a) (map (\<lambda>x. x / d) b) = cosine a b"
proof -
  have n: "l2_norm (map (\<lambda>x. x / d) v) = l2_norm v / \<bar>d\<bar>" for v
    by (simp add: l2_norm_def dot_scale real_sqrt_divide real_sqrt_mult)
  show ?thesis using assms
    by (simp add: cosine_def n dot_scale)
qed

lemma cosine_similarity_nth:
  assumes "a < length X" "b < length X"
  shows "cosine_similarity X ! a ! b = cosine (X ! a) (X ! b)"
  using assms by (simp add: cosine_similarity_def)

lemma cosine_similarity_eq:
  "cosine_similarity X = map (\<lambda>a. map (\<lambda>b. cosine a b) X) X"
  by (simp add: cosine_similarity_def)


lemma cosine_similarity_scale:
  "d \<noteq> 0 \<Longrightarrow> cosine_similarity (map (map (\<lambda>x. x / d)) M) = cosine_similarity M"
  by (simp add: cosine_similarity_eq comp_def cosine_scale)

lemma np_transpose_map:
  assumes "list_all (\<lambda>row. length row = n) M"
  shows "np_transpose n (map (map f) M) = map (map f) (np_transpose n M)"
  using assms by (auto simp: np_transpose_def list_all_iff)

lemma wf_df_row: "wf_df d \<Longrightarrow> i < length (df_index d) \<Longrightarrow> length (df_values d ! i) = length (df_columns d)"
  by (simp add: wf_df_def list_all_length)

lemma wf_df_nonempty:
  assumes "wf_df d" "concat (df_values d) \<noteq> []"
  shows "df_index d \<noteq> [] \<and> df_columns d \<noteq> []"
proof -
  obtain row where r: "row \<in> set (df_values d)" "row \<noteq> []"
    using assms(2) by (auto simp: concat_eq_Nil_conv)
  then have "length row = length (df_columns d)"
    using assms(1) by (simp add: wf_df_def list_all_iff)
  moreover have "df_values d \<noteq> []" using r by auto
  ultimately show ?thesis using r assms(1) by (auto simp: wf_df_def)
qed

lemma fit_fitted:
  assumes "wf_df df" and "fit nmf_fit self df = (self', None)"
  shows "user_item_matrix self' = Some df"
    and "user_ids self' = Some (df_index df)"
    and "item_ids self' = Some (df_columns df)"
    and "user_similarity self' = Some (cosine_similarity (df_values df))"
    and "item_similarity self' =
           Some (cosine_similarity (np_transpose (length (df_columns df)) (df_values df)))"
    and "df_index df \<noteq> []" and "df_columns df \<noteq> []"
    and "n_recommendations self' = n_recommendations self"
proof -
  define d where "d = Max (set (concat (df_values df))) + 1 / 10 ^ 8"
  have ne: "concat (df_values df) \<noteq> []" and d0: "d \<noteq> 0"
    using assms(2) by (auto simp: fit_def Let_def d_def split: if_splits)
  have rows: "list_all (\<lambda>row. length row = length (df_columns df)) (df_values df)"
    using assms(1) by (simp add: wf_df_def)
  have self': "self' = self\<lparr>user_item_matrix := Some df,
                       user_ids := Some (df_index df),
                       item_ids := Some (df_columns df),
                       user_similarity := Some (cosine_similarity (map (map (\<lambda>x. x / d)) (df_values df))),
                       item_similarity := Some (cosine_similarity
                          (np_transpose (length (df_columns df)) (map (map (\<lambda>x. x / d)) (df_values df)))),
                       model := nmf_fit (min (n_components self)
                                  (int (min (length (df_index df)) (length (df_columns df))) - 1))
                                (map (map (\<lambda>x. x / d)) (df_values df))\<rparr>"
    using assms(2) ne d0 by (simp add: fit_def Let_def d_def split: if_splits)
  show "user_item_matrix self' = Some df" "user_ids self' = Some (df_index df)"
    "item_ids self' = Some (df_columns df)" "n_recommendations self' = n_recommendations self"
    by (simp_all add: self')
  show "user_similarity self' = Some (cosine_similarity (df_values df))"
    by (simp add: self' cosine_similarity_scale [OF d0])
  show "item_similarity self' =
           Some (cosine_similarity (np_transpose (length (df_columns df)) (df_values df)))"
    by (simp add: self' np_transpose_map [OF rows] cosine_similarity_scale [OF d0])
  show "df_index df \<noteq> []" "df_columns df \<noteq> []"
    using wf_df_nonempty [OF assms(1) ne] by simp_all
qed

lemma fit_model:
  assumes "fit nmf_fit self df = (self', None)"
  shows "\<exists>d. model self' =
           nmf_fit (min (n_components self)
                      (int (min (length (df_index df)) (length (df_columns df))) - 1))
             (map (map (\<lambda>x. x / d)) (df_values df))"
  using assms by (auto simp: fit_def Let_def split: if_splits)

lemma fit_fields:
  "user_item_matrix (fst (fit nmf_fit self df)) = Some df"
  "user_ids (fst (fit nmf_fit self df)) = Some (df_index df)"
  "item_ids (fst (fit nmf_fit self df)) = Some (df_columns df)"
  "n_recommendations (fst (fit nmf_fit self df)) = n_recommendations self"
  by (simp_all add: fit_def Let_def)


lemma set_py_take: "set (py_take n xs) \<subseteq> set xs"
  by (auto simp: py_take_def dest: in_set_takeD)



lemma cold_start_eq:
  "cust \<notin> set (df_index df) \<Longrightarrow>
   get_user_recommendations (fst (fit nmf_fit self df)) cust n_opt =
     Inr (map (\<lambda>(p, s). \<lparr>product = p, score = s, reasoning = popularity\<rparr>)
           (py_take (case n_opt of None \<Rightarrow> n_recommendations self | Some k \<Rightarrow> k)
              (sort_desc snd (zip (df_columns df) (column_sums df)))))"
  by (simp add: get_user_recommendations_def get_cold_start_recommendations_def fit_fields Let_def
      split: option.split)


subsection \<open>The similarity matrices\<close>

text \<open>
  C4, as amended. After a successful fit of a well-shaped quantity matrix, the user-user
  and the item-item similarity of every pair is the cosine of the two quantity vectors
  (rows for users, columns for items), which is 0 when either vector has zero magnitude;
  both matrices are symmetric; a diagonal entry is 1 when the vector has a non-zero cell
  and 0 when the vector is all zero.
\<close>

theorem similarity_symmetric_diagonal:
  assumes "wf_df df" and "fit nmf_fit self df = (self', None)"
    and "a < length (df_index df)" and "b < length (df_index df)"
    and "j < length (df_columns df)" and "k < length (df_columns df)"
  shows "user_sim self' a b = Some (cosine (df_values df ! a) (df_values df ! b))
       \<and> user_sim self' a b = user_sim self' b a
       \<and> user_sim self' a a = Some (if \<forall>x\<in>set (df_values df ! a). x = 0 then 0 else 1)
       \<and> item_sim self' j k = Some (cosine (column df j) (column df k))
       \<and> item_sim self' j k = item_sim self' k j
       \<and> item_sim self' j j = Some (if \<forall>x\<in>set (column df j). x = 0 then 0 else 1)"
proof -
  have len: "length (df_values df) = length (df_index df)"
    using assms(1) by (simp add: wf_df_def)
  have u: "user_sim self' x y = Some (cosine (df_values df ! x) (df_values df ! y))"
    if "x < length (df_index df)" "y < length (df_index df)" for x y
    using that len
    by (simp add: user_sim_def fit_fitted(4) [OF assms(1,2)] cosine_similarity_nth)
  have i: "item_sim self' x y = Some (cosine (column df x) (column df y))"
    if "x < length (df_columns df)" "y < length (df_columns df)" for x y
    using that
    by (simp add: item_sim_def fit_fitted(5) [OF assms(1,2)] cosine_similarity_nth
        np_transpose_def column_def)
  show ?thesis
    using u [OF assms(3,4)] u [OF assms(4,3)] u [OF assms(3,3)]
      i [OF assms(5,6)] i [OF assms(6,5)] i [OF assms(5,5)]
    by (simp add: cosine_commute cosine_self)
qed


lemma uim_zero: "prepare_user_item_matrix txs_zero_customer =
   \<lparr>df_index = [1, 2], df_columns = [''A''], df_values = [[0], [1]]\<rparr>"
  by (simp add: prepare_user_item_matrix_def fillna_def unstack_def group_sum_def
      txs_zero_customer_def Let_def)

lemma fit_zero_ok:
  "snd (fit no_nmf (RecommenderEngine 10 10) (prepare_user_item_matrix txs_zero_customer)) = None"
  by (simp add: uim_zero fit_def Let_def)

text \<open>
  The claim as stated fails on the diagonal: a customer whose only line has quantity zero
  has an all-zero row, and the self-similarity of that row is 0, not 1.
\<close>

theorem diagonal_one_counterexample:
  "snd (fit no_nmf (RecommenderEngine 10 10) (prepare_user_item_matrix txs_zero_customer)) = None
   \<and> user_sim (fst (fit no_nmf (RecommenderEngine 10 10)
                      (prepare_user_item_matrix txs_zero_customer))) 0 0 = Some 0"
proof -
  have wf: "wf_df (prepare_user_item_matrix txs_zero_customer)"
    by (simp add: uim_zero wf_df_def)
  have ok: "fit no_nmf (RecommenderEngine 10 10) (prepare_user_item_matrix txs_zero_customer)
      = (fst (fit no_nmf (RecommenderEngine 10 10) (prepare_user_item_matrix txs_zero_customer)), None)"
    using fit_zero_ok by (metis prod.collapse)
  have "user_sim (fst (fit no_nmf (RecommenderEngine 10 10)
                      (prepare_user_item_matrix txs_zero_customer))) 0 0
        = Some (cosine_similarity (df_values (prepare_user_item_matrix txs_zero_customer)) ! 0 ! 0)"
    by (simp only: user_sim_def fit_fitted(4) [OF wf ok] option.case)
  also have "\<dots> = Some 0"
    by (simp add: uim_zero cosine_similarity_eq cosine_def l2_norm_def dot_def)
  finally show ?thesis
    using fit_zero_ok by simp
qed

theorem similarity_symmetric_diagonal_witness:
  "wf_df (prepare_user_item_matrix txs_zero_customer)
   \<and> snd (fit no_nmf (RecommenderEngine 10 10)
             (prepare_user_item_matrix txs_zero_customer)) = None
   \<and> user_sim (fst (fit no_nmf (RecommenderEngine 10 10)
                      (prepare_user_item_matrix txs_zero_customer))) 0 1 = Some 0
   \<and> user_sim (fst (fit no_nmf (RecommenderEngine 10 10)
                      (prepare_user_item_matrix txs_zero_customer))) 1 1 = Some 1
   \<and> item_sim (fst (fit no_nmf (RecommenderEngine 10 10)
                      (prepare_user_item_matrix txs_zero_customer))) 0 0 = Some 1"
proof -
  have wf: "wf_df (prepare_user_item_matrix txs_zero_customer)"
    by (simp add: uim_zero wf_df_def)
  have ok: "fit no_nmf (RecommenderEngine 10 10) (prepare_user_item_matrix txs_zero_customer)
      = (fst (fit no_nmf (RecommenderEngine 10 10) (prepare_user_item_matrix txs_zero_customer)), None)"
    using fit_zero_ok by (metis prod.collapse)
  have "(0::nat) < length (df_index (prepare_user_item_matrix txs_zero_customer))"
       "(1::nat) < length (df_index (prepare_user_item_matrix txs_zero_customer))"
       "(0::nat) < length (df_columns (prepare_user_item_matrix txs_zero_customer))"
    by (simp_all add: uim_zero)
  from similarity_symmetric_diagonal [OF wf ok this(1) this(2) this(3) this(3)]
    similarity_symmetric_diagonal [OF wf ok this(2) this(2) this(3) this(3)]
  show ?thesis
    using wf fit_zero_ok by (simp add: uim_zero cosine_def l2_norm_def dot_def column_def)
qed

subsection \<open>Cold start\<close>


lemma uim_two:
  "prepare_user_item_matrix txs_two_customers =
     \<lparr>df_index = [1, 2], df_columns = [''A'', ''B''], df_values = [[1, 0], [1, 1]]\<rparr>"
  by (simp add: prepare_user_item_matrix_def fillna_def unstack_def group_sum_def
      txs_two_customers_def Let_def)


lemma cold_start_example:
  "get_user_recommendations
     (fst (fit no_nmf (RecommenderEngine 10 10) (prepare_user_item_matrix txs_two_customers)))
     99 (Some 1) = Inr [\<lparr>product = ''A'', score = 2, reasoning = popularity\<rparr>]"
  by (simp add: cold_start_eq uim_two column_sums_def sort_desc_def py_take_def)

subsection \<open>The known-customer path\<close>

lemma index_of_less: "x \<in> set xs \<Longrightarrow> index_of x xs < length xs"
  by (induction xs) (auto simp: index_of_def)

lemma nth_index_of: "x \<in> set xs \<Longrightarrow> xs ! index_of x xs = x"
  by (induction xs) (auto simp: index_of_def)

lemma set_argsort: "set (argsort xs) = {0..<length xs}"
  by (simp add: argsort_def)

lemma top_recs_in:
  assumes "r \<in> set (top_recs why iids scores n)"
  shows "\<exists>idx<length scores. product r = iids ! idx \<and> reasoning r = why
           \<and> scores ! idx = Some (score r) \<and> 0 < score r"
proof -
  from assms obtain idx where idx: "idx \<in> set (py_take n (rev (argsort scores)))"
    and r: "r \<in> set (case scores ! idx of None \<Rightarrow> []
                      | Some s \<Rightarrow> if 0 < s then [\<lparr>product = iids ! idx, score = s, reasoning = why\<rparr>]
                                  else [])"
    by (auto simp: top_recs_def)
  have "idx \<in> set (rev (argsort scores))" by (rule subsetD [OF set_py_take idx])
  then have "idx < length scores" by (simp add: set_argsort)
  then show ?thesis using r by (auto split: option.splits if_splits)
qed

lemma mask_purchased_Some:
  assumes "idx < length (mask_purchased uv sc)" "mask_purchased uv sc ! idx = Some s"
  shows "\<not> 0 < uv ! idx \<and> s = sc ! idx \<and> idx < length uv \<and> idx < length sc"
proof -
  from assms(1) have l: "idx < length uv" "idx < length sc"
    by (simp_all add: mask_purchased_def)
  then have "mask_purchased uv sc ! idx = (if 0 < uv ! idx then None else Some (sc ! idx))"
    by (simp add: mask_purchased_def)
  with assms(2) l show ?thesis by (simp split: if_splits)
qed

lemma length_content_scores: "length (content_scores isim nitems uv ps) \<le> nitems"
proof -
  have "length (fold (\<lambda>p acc. map2 (+) acc (map (\<lambda>s. s * uv ! p) (isim ! p))) ps init) \<le> length init"
    for init
  proof (induction ps arbitrary: init)
    case Nil
    then show ?case by simp
  next
    case (Cons p ps)
    have "length (fold (\<lambda>p acc. map2 (+) acc (map (\<lambda>s. s * uv ! p) (isim ! p))) ps
             (map2 (+) init (map (\<lambda>s. s * uv ! p) (isim ! p))))
          \<le> length (map2 (+) init (map (\<lambda>s. s * uv ! p) (isim ! p)))"
      by (rule Cons.IH)
    also have "\<dots> \<le> length init" by simp
    finally show ?case by simp
  qed
  from this [of "replicate nitems 0"] show ?thesis by (simp add: content_scores_def)
qed

lemma content_based_fitted:
  assumes "wf_df df" and "fit nmf_fit self df = (self', None)" and "cust \<in> set (df_index df)"
  shows "\<exists>recs. get_content_based_recommendations self' cust m = Inr recs
          \<and> (\<forall>r\<in>set recs. reasoning r = content_based \<and> 0 < score r
                \<and> (\<exists>j<length (df_columns df). product r = df_columns df ! j
                      \<and> \<not> 0 < df_values df ! index_of cust (df_index df) ! j))"
proof -
  define u where "u = index_of cust (df_index df)"
  define uv where "uv = df_values df ! u"
  define ps where "ps = filter (\<lambda>j. 0 < uv ! j) [0..<length uv]"
  define sc where "sc = content_scores (cosine_similarity
       (np_transpose (length (df_columns df)) (df_values df))) (length (df_columns df)) uv ps"
  define masked where
    "masked = map (\<lambda>j. if j \<in> set ps then None else Some (sc ! j)) [0..<length sc]"
  note f = fit_fitted [OF assms(1,2)]
  have ulen: "u < length (df_index df)"
    unfolding u_def using assms(3) by (rule index_of_less)
  have uvlen: "length uv = length (df_columns df)"
    unfolding uv_def using wf_df_row [OF assms(1) ulen] .
  have eq: "get_content_based_recommendations self' cust m =
      Inr (if ps = [] then [] else top_recs content_based (df_columns df) masked m)"
    unfolding masked_def sc_def ps_def uv_def u_def
    using assms(3)
    by (simp add: get_content_based_recommendations_def f Let_def)
  have main: "reasoning r = content_based \<and> 0 < score r
          \<and> (\<exists>j<length (df_columns df). product r = df_columns df ! j \<and> \<not> 0 < uv ! j)"
    if "r \<in> set (top_recs content_based (df_columns df) masked m)" for r
  proof -
    from top_recs_in [OF that] obtain idx where idx: "idx < length masked"
      "product r = df_columns df ! idx" "reasoning r = content_based"
      "masked ! idx = Some (score r)" "0 < score r" by blast
    have l: "idx < length sc" using idx(1) by (simp add: masked_def)
    have "length sc \<le> length (df_columns df)"
      unfolding sc_def by (rule length_content_scores)
    with l have c: "idx < length (df_columns df)" by simp
    have "masked ! idx = (if idx \<in> set ps then None else Some (sc ! idx))"
      using l by (simp add: masked_def)
    with idx(4) have "idx \<notin> set ps" by (simp split: if_splits)
    then have "\<not> 0 < uv ! idx" using c uvlen by (simp add: ps_def)
    with c idx show ?thesis by blast
  qed
  show ?thesis
  proof (cases "ps = []")
    case True
    then show ?thesis by (simp add: eq)
  next
    case False
    then have "get_content_based_recommendations self' cust m =
      Inr (top_recs content_based (df_columns df) masked m)" by (simp add: eq)
    then show ?thesis using main unfolding uv_def u_def by blast
  qed
qed



lemma length_np_dot: "length (np_dot ncols v M) = ncols"
  by (simp add: np_dot_def)


lemma final_scores_nth:
  assumes "length w = ncols" "j < ncols"
  shows "final_scores mdl ncols uv w ! j =
     (case mdl of None \<Rightarrow> w ! j
      | Some m \<Rightarrow> (case mf_scores m ncols uv of Inl e \<Rightarrow> w ! j
                   | Inr factor \<Rightarrow> 6 / 10 * w ! j + 4 / 10 * factor ! j))"
proof (cases mdl)
  case None
  then show ?thesis by (simp add: final_scores_def)
next
  case (Some m)
  show ?thesis
  proof (cases "mf_scores m ncols uv")
    case (Inl e)
    then show ?thesis using Some by (simp add: final_scores_def)
  next
    case (Inr factor)
    then have "length factor = ncols"
      by (auto simp: mf_scores_def length_np_dot split: sum.splits if_splits)
    then show ?thesis using Some Inr assms by (simp add: final_scores_def)
  qed
qed

lemma length_final_scores:
  assumes "length w = ncols"
  shows "length (final_scores mdl ncols uv w) = ncols"
proof (cases mdl)
  case None
  then show ?thesis using assms by (simp add: final_scores_def)
next
  case (Some m)
  show ?thesis
  proof (cases "mf_scores m ncols uv")
    case (Inl e)
    then show ?thesis using Some assms by (simp add: final_scores_def)
  next
    case (Inr factor)
    then have "length factor = ncols"
      by (auto simp: mf_scores_def length_np_dot split: sum.splits if_splits)
    then show ?thesis using Some Inr assms by (simp add: final_scores_def)
  qed
qed


lemma known_eq:
  assumes "wf_df df" and "fit nmf_fit self df = (self', None)" and "cust \<in> set (df_index df)"
    and "collab = top_recs collaborative (df_columns df)
                    (mask_purchased (df_values df ! index_of cust (df_index df))
                       (final_scores (model self') (length (df_columns df))
                          (df_values df ! index_of cust (df_index df))
                          (weighted_items (cosine_similarity (df_values df)) df
                             (index_of cust (df_index df)))))
                    (requested self n_opt)"
  shows "get_user_recommendations self' cust n_opt =
     (if int (length collab) < requested self n_opt then
        (case get_content_based_recommendations self' cust
                (requested self n_opt - int (length collab)) of
           Inl e \<Rightarrow> Inl e
         | Inr content_recs \<Rightarrow> Inr (py_take (requested self n_opt) (collab @ content_recs)))
      else Inr (py_take (requested self n_opt) collab))"
proof -
  note f = fit_fitted [OF assms(1,2)]
  have n: "(case n_opt of None \<Rightarrow> n_recommendations self' | Some k \<Rightarrow> k) = requested self n_opt"
    by (simp add: requested_def f split: option.split)
  show ?thesis
    unfolding assms(4)
    using assms(3) by (simp add: get_user_recommendations_def f n Let_def)
qed

lemma known_fitted:
  assumes "wf_df df" and "fit nmf_fit self df = (self', None)" and "cust \<in> set (df_index df)"
  shows "\<exists>content. get_user_recommendations self' cust n_opt =
           Inr (py_take (requested self n_opt)
                 (top_recs collaborative (df_columns df)
                    (mask_purchased (df_values df ! index_of cust (df_index df))
                       (final_scores (model self') (length (df_columns df))
                          (df_values df ! index_of cust (df_index df))
                          (weighted_items (cosine_similarity (df_values df)) df
                             (index_of cust (df_index df)))))
                    (requested self n_opt) @ content))
          \<and> (\<forall>r\<in>set content. reasoning r = content_based \<and> 0 < score r
                \<and> (\<exists>j<length (df_columns df). product r = df_columns df ! j
                      \<and> \<not> 0 < df_values df ! index_of cust (df_index df) ! j))"
proof -
  define n where "n = requested self n_opt"
  define collab where "collab = top_recs collaborative (df_columns df)
                    (mask_purchased (df_values df ! index_of cust (df_index df))
                       (final_scores (model self') (length (df_columns df))
                          (df_values df ! index_of cust (df_index df))
                          (weighted_items (cosine_similarity (df_values df)) df
                             (index_of cust (df_index df))))) n"
  have eq: "get_user_recommendations self' cust n_opt =
     (if int (length collab) < n then
        (case get_content_based_recommendations self' cust (n - int (length collab)) of
           Inl e \<Rightarrow> Inl e
         | Inr content_recs \<Rightarrow> Inr (py_take n (collab @ content_recs)))
      else Inr (py_take n collab))"
    unfolding n_def by (rule known_eq [OF assms]) (simp add: collab_def n_def)
  show ?thesis
  proof (cases "int (length collab) < n")
    case True
    from content_based_fitted [OF assms, of "n - int (length collab)"]
    obtain content where c: "get_content_based_recommendations self' cust (n - int (length collab))
        = Inr content"
      "\<forall>r\<in>set content. reasoning r = content_based \<and> 0 < score r
                \<and> (\<exists>j<length (df_columns df). product r = df_columns df ! j
                      \<and> \<not> 0 < df_values df ! index_of cust (df_index df) ! j)"
      by blast
    have "get_user_recommendations self' cust n_opt = Inr (py_take n (collab @ content))"
      using True c(1) by (simp add: eq)
    then show ?thesis using c(2) unfolding collab_def n_def by blast
  next
    case False
    then have "get_user_recommendations self' cust n_opt = Inr (py_take n (collab @ []))"
      by (simp add: eq)
    then show ?thesis unfolding collab_def n_def by (intro exI [of _ "[]"]) simp
  qed
qed

lemma collab_rec_props:
  assumes "wf_df df" "u < length (df_index df)"
    and "r \<in> set (top_recs collaborative (df_columns df)
                    (mask_purchased (df_values df ! u) final) n)"
    and "length final = length (df_columns df)"
  shows "reasoning r = collaborative \<and> 0 < score r
         \<and> (\<exists>j<length (df_columns df). product r = df_columns df ! j
               \<and> score r = final ! j \<and> \<not> 0 < df_values df ! u ! j)"
proof -
  from top_recs_in [OF assms(3)] obtain idx where
    idx: "idx < length (mask_purchased (df_values df ! u) final)"
      "product r = df_columns df ! idx" "reasoning r = collaborative"
      "mask_purchased (df_values df ! u) final ! idx = Some (score r)" "0 < score r"
    by blast
  from mask_purchased_Some [OF idx(1,4)]
  have m: "\<not> 0 < df_values df ! u ! idx" "score r = final ! idx" "idx < length final"
    by simp_all
  then have "idx < length (df_columns df)" using assms(4) by simp
  with idx m show ?thesis by blast
qed

lemma fit_two_ok:
  "snd (fit nmf_fit (RecommenderEngine 10 10) (prepare_user_item_matrix txs_two_customers)) = None"
  by (simp add: uim_two fit_def Let_def)

lemma wf_two: "wf_df (prepare_user_item_matrix txs_two_customers)"
  by (simp add: uim_two wf_df_def)

lemma top_recs_two:
  assumes "0 < s"
  shows "top_recs why [a, b] [None, Some s] 2 = [\<lparr>product = b, score = s, reasoning = why\<rparr>]"
    and "top_recs why [a, b] [None, Some s] 1 = [\<lparr>product = b, score = s, reasoning = why\<rparr>]"
  using assms by (simp_all add: top_recs_def argsort_def py_take_def)

lemma fit_two_pair:
  "fit nmf_fit (RecommenderEngine 10 10) (prepare_user_item_matrix txs_two_customers) =
     (fst (fit nmf_fit (RecommenderEngine 10 10) (prepare_user_item_matrix txs_two_customers)),
      None)"
  using fit_two_ok [of nmf_fit] by (metis prod.collapse)

text \<open>
  C2. After a successful fit of a well-shaped quantity matrix with distinct product
  columns, \<^verbatim>\<open>get_user_recommendations\<close> for a known customer returns without raising,
  and no returned product, from the collaborative tier or from the content-based fill,
  has a quantity greater than 0 in that customer's row.
\<close>

theorem no_repurchase:
  assumes "wf_df df" and "distinct (df_columns df)"
    and "fit nmf_fit self df = (self', None)" and "cust \<in> set (df_index df)"
  shows "\<exists>recs. get_user_recommendations self' cust n_opt = Inr recs
          \<and> (\<forall>r\<in>set recs. \<forall>j<length (df_columns df).
                df_columns df ! j = product r \<longrightarrow>
                \<not> 0 < df_values df ! index_of cust (df_index df) ! j)"
proof -
  define u where "u = index_of cust (df_index df)"
  define final where "final = final_scores (model self') (length (df_columns df))
                          (df_values df ! u) (weighted_items (cosine_similarity (df_values df)) df u)"
  define collab where "collab = top_recs collaborative (df_columns df)
                    (mask_purchased (df_values df ! u) final) (requested self n_opt)"
  have ulen: "u < length (df_index df)"
    unfolding u_def using assms(4) by (rule index_of_less)
  have flen: "length final = length (df_columns df)"
    unfolding final_def by (rule length_final_scores) (simp add: weighted_items_def length_np_dot)
  from known_fitted [OF assms(1,3,4), of n_opt]
  obtain content where res: "get_user_recommendations self' cust n_opt =
      Inr (py_take (requested self n_opt) (collab @ content))"
    and content: "\<forall>r\<in>set content. reasoning r = content_based \<and> 0 < score r
                \<and> (\<exists>j<length (df_columns df). product r = df_columns df ! j
                      \<and> \<not> 0 < df_values df ! u ! j)"
    unfolding collab_def final_def u_def by blast
  have "\<not> 0 < df_values df ! u ! j"
    if r: "r \<in> set (py_take (requested self n_opt) (collab @ content))"
      and j: "j < length (df_columns df)" "df_columns df ! j = product r" for r j
  proof -
    from r have "r \<in> set collab \<or> r \<in> set content"
      using set_py_take [of "requested self n_opt" "collab @ content"] by auto
    then obtain k where k: "k < length (df_columns df)" "product r = df_columns df ! k"
      "\<not> 0 < df_values df ! u ! k"
    proof
      assume "r \<in> set collab"
      then show ?thesis
        using collab_rec_props [OF assms(1) ulen _ flen, of r "requested self n_opt"] that
        unfolding collab_def by blast
    next
      assume "r \<in> set content"
      then show ?thesis using content that by blast
    qed
    have "j = k" using j k(1,2) assms(2) by (simp add: nth_eq_iff_index_eq)
    then show ?thesis using k(3) by simp
  qed
  then show ?thesis unfolding res u_def by blast
qed

theorem no_repurchase_witness:
  "wf_df (prepare_user_item_matrix txs_two_customers)
   \<and> distinct (df_columns (prepare_user_item_matrix txs_two_customers))
   \<and> snd (fit no_nmf (RecommenderEngine 10 10)
             (prepare_user_item_matrix txs_two_customers)) = None
   \<and> 1 \<in> set (df_index (prepare_user_item_matrix txs_two_customers))
   \<and> (\<exists>recs. get_user_recommendations
                (fst (fit no_nmf (RecommenderEngine 10 10)
                       (prepare_user_item_matrix txs_two_customers))) 1 (Some 2) = Inr recs
          \<and> (\<forall>r\<in>set recs. product r \<noteq> ''A''))"
proof -
  have d: "distinct (df_columns (prepare_user_item_matrix txs_two_customers))"
    by (simp add: uim_two)
  have m: "1 \<in> set (df_index (prepare_user_item_matrix txs_two_customers))"
    by (simp add: uim_two)
  from no_repurchase [OF wf_two d fit_two_pair m, of no_nmf "Some 2"]
  obtain recs where recs: "get_user_recommendations
                (fst (fit no_nmf (RecommenderEngine 10 10)
                       (prepare_user_item_matrix txs_two_customers))) 1 (Some 2) = Inr recs"
    and np: "\<forall>r\<in>set recs. \<forall>j<length (df_columns (prepare_user_item_matrix txs_two_customers)).
                df_columns (prepare_user_item_matrix txs_two_customers) ! j = product r \<longrightarrow>
                \<not> 0 < df_values (prepare_user_item_matrix txs_two_customers)
                         ! index_of 1 (df_index (prepare_user_item_matrix txs_two_customers)) ! j"
    by blast
  have "product r \<noteq> ''A''" if "r \<in> set recs" for r
    using np [rule_format, OF that, of 0] by (auto simp: uim_two index_of_def)
  then show ?thesis
    using wf_two d fit_two_ok [of no_nmf] m recs by blast
qed










text \<open>
  C10. The two tiers are not deduplicated against each other. For the matrix in which
  customer 1 bought A and customer 2 bought A and B, and for every outcome of the
  non-negative factorisation, asking two recommendations for customer 1 yields one
  collaborative recommendation (fewer than the two asked for) and the content-based fill
  adds the same product B again.
\<close>

theorem duplicate_across_tiers:
  assumes "nonneg_factors nmf_fit"
  shows "\<exists>s1 s2. get_user_recommendations
            (fst (fit nmf_fit (RecommenderEngine 10 10)
                   (prepare_user_item_matrix txs_two_customers))) 1 (Some 2)
          = Inr [\<lparr>product = ''B'', score = s1, reasoning = collaborative\<rparr>,
                 \<lparr>product = ''B'', score = s2, reasoning = content_based\<rparr>]"
proof -
  define D where "D = prepare_user_item_matrix txs_two_customers"
  define E where "E = fst (fit nmf_fit (RecommenderEngine 10 10) D)"
  have D: "D = \<lparr>df_index = [1, 2], df_columns = [''A'', ''B''], df_values = [[1, 0], [1, 1]]\<rparr>"
    unfolding D_def by (rule uim_two)
  have wf: "wf_df D" unfolding D_def by (rule wf_two)
  have ok: "fit nmf_fit (RecommenderEngine 10 10) D = (E, None)"
    unfolding E_def D_def using fit_two_ok [of nmf_fit] by (metis prod.collapse)
  note f = fit_fitted [OF wf ok]
  define w where "w = weighted_items (cosine_similarity (df_values D)) D 0"
  define final where "final = final_scores (model E) 2 [1, 0] w"
  have wlen: "length w = 2" by (simp add: w_def weighted_items_def length_np_dot D)
  have w1: "0 < w ! 1"
    by (simp add: w_def weighted_items_def np_dot_def D cosine_similarity_eq cosine_def
        l2_norm_def dot_def)
  have flen: "length final = 2" unfolding final_def using wlen by (rule length_final_scores)
  have f1: "0 < final ! 1"
  proof (cases "model E")
    case None
    then show ?thesis using w1 by (simp add: final_def final_scores_def)
  next
    case (Some m)
    show ?thesis
    proof (cases "mf_scores m 2 [1, 0]")
      case (Inl e)
      then show ?thesis using Some w1 by (simp add: final_def final_scores_def)
    next
      case (Inr factor)
      have len: "length factor = 2"
        using Inr by (auto simp: mf_scores_def length_np_dot split: sum.splits if_splits)
      from fit_model [OF ok] obtain d where
        "model E = nmf_fit (min (n_components (RecommenderEngine 10 10))
                     (int (min (length (df_index D)) (length (df_columns D))) - 1))
                   (map (map (\<lambda>x. x / d)) (df_values D))"
        by blast
      then obtain k M where M: "nmf_fit k M = Some m" "M = map (map (\<lambda>x. x / d)) (df_values D)"
        using Some by simp
      have "M \<noteq> []" "length (hd M) = 2" by (simp_all add: M(2) D)
      then have "\<forall>x\<in>set factor. 0 \<le> x"
        using assms M(1) Inr unfolding nonneg_factors_def by metis
      then have "0 \<le> factor ! 1" using len by simp
      moreover have "final ! 1 = 6 / 10 * w ! 1 + 4 / 10 * factor ! 1"
        unfolding final_def using final_scores_nth [OF wlen, of 1 "model E" "[1, 0]"] Some Inr
        by simp
      ultimately show ?thesis using w1 by simp
    qed
  qed
  obtain x y where xy: "final = [x, y]"
    using flen by (metis (no_types, opaque_lifting) length_0_conv length_Suc_conv numeral_2_eq_2)
  have y: "0 < y" using f1 xy by simp
  have masked: "mask_purchased [1, 0] final = [None, Some y]"
    by (simp add: mask_purchased_def xy)
  have collab: "top_recs collaborative [''A'', ''B''] (mask_purchased [1, 0] final) 2
      = [\<lparr>product = ''B'', score = y, reasoning = collaborative\<rparr>]"
    unfolding masked by (rule top_recs_two(1) [OF y])
  define z :: real where "z = 1 / sqrt 2"
  have z: "0 < z" by (simp add: z_def)
  have cs: "content_scores (cosine_similarity (np_transpose 2 [[1, 0], [1, 1]])) 2 [1, 0] [0]
      = [1, z]"
  proof -
    have r: "replicate 2 (0::real) = [0, 0]" by (simp add: numeral_2_eq_2)
    show ?thesis
      by (simp add: z_def content_scores_def np_transpose_def cosine_similarity_eq cosine_def
          l2_norm_def dot_def upt_rec r)
  qed
  have content: "get_content_based_recommendations E 1 1 =
      Inr [\<lparr>product = ''B'', score = z, reasoning = content_based\<rparr>]"
  proof -
    have cs': "content_scores (cosine_similarity (np_transpose (Suc (Suc 0)) [[1, 0], [1, 1]]))
        (Suc (Suc 0)) [1, 0] [0] = [1, z]"
      using cs by (simp only: numeral_2_eq_2)
    show ?thesis
      using top_recs_two(2) [OF z, of content_based "''A''" "''B''"]
      by (simp add: get_content_based_recommendations_def f D Let_def index_of_def cs')
  qed
  have sel: "df_columns D = [''A'', ''B'']" "index_of 1 (df_index D) = 0"
    "df_values D ! index_of 1 (df_index D) = [1, 0]" "length (df_columns D) = 2"
    "requested (RecommenderEngine 10 10) (Some 2) = 2"
    by (simp_all add: D index_of_def requested_def)
  have sel2: "df_values D ! 0 = [1, 0]" "length [''A'', ''B''] = 2"
    by (simp_all add: D)
  have mem: "1 \<in> set (df_index D)" by (simp add: D)
  have c: "[\<lparr>product = ''B'', score = y, reasoning = collaborative\<rparr>] =
      top_recs collaborative (df_columns D)
                    (mask_purchased (df_values D ! index_of 1 (df_index D))
                       (final_scores (model E) (length (df_columns D))
                          (df_values D ! index_of 1 (df_index D))
                          (weighted_items (cosine_similarity (df_values D)) D
                             (index_of 1 (df_index D)))))
                    (requested (RecommenderEngine 10 10) (Some 2))"
    unfolding sel sel2 w_def [symmetric] final_def [symmetric] by (rule collab [symmetric])
  have "get_user_recommendations E 1 (Some 2) =
      Inr [\<lparr>product = ''B'', score = y, reasoning = collaborative\<rparr>,
           \<lparr>product = ''B'', score = z, reasoning = content_based\<rparr>]"
    unfolding known_eq [OF wf ok mem c] sel sel2 by (simp add: content py_take_def)
  then show ?thesis unfolding E_def D_def by blast
qed


lemma nonneg_ones: "nonneg_factors ones_nmf"
  unfolding nonneg_factors_def
proof (intro allI impI ballI)
  fix k M m v f x
  assume m: "ones_nmf k M = Some m" and f: "mf_scores m (length (hd M)) v = Inr f"
    and x: "x \<in> set f"
  have "f = np_dot (length (hd M)) [1] [replicate (length (hd M)) 1]"
    using m f by (auto simp: ones_nmf_def mf_scores_def)
  then obtain j where "j < length (hd M)" "x = 1 * replicate (length (hd M)) 1 ! j"
    using x by (auto simp: np_dot_def)
  then show "0 \<le> x" by simp
qed

theorem duplicate_across_tiers_witness:
  "nonneg_factors ones_nmf
   \<and> (\<exists>s1 s2. get_user_recommendations
            (fst (fit ones_nmf (RecommenderEngine 10 10)
                   (prepare_user_item_matrix txs_two_customers))) 1 (Some 2)
          = Inr [\<lparr>product = ''B'', score = s1, reasoning = collaborative\<rparr>,
                 \<lparr>product = ''B'', score = s2, reasoning = content_based\<rparr>])"
  using nonneg_ones duplicate_across_tiers [OF nonneg_ones] by simp

subsection \<open>Similar users and similar products\<close>

lemma uim_twins:
  "prepare_user_item_matrix txs_twins =
     \<lparr>df_index = [1, 2], df_columns = [''A'', ''B''], df_values = [[1, 1], [1, 1]]\<rparr>"
  by (simp add: prepare_user_item_matrix_def fillna_def unstack_def group_sum_def
      txs_twins_def Let_def)

lemma fit_twins_ok:
  "snd (fit nmf_fit (RecommenderEngine 10 10) (prepare_user_item_matrix txs_twins)) = None"
  by (simp add: uim_twins fit_def Let_def)

text \<open>
  C8. The neighbour queries are meant to exclude the queried entity. The code drops the
  first position of the descending ranking, which is the queried entity only when its
  self-similarity is strictly the largest entry of its row. With two customers of
  identical purchases of two products all similarities are 1, the ranking of both rows
  is the same, and each query answers customer 1 (product A) whether it is asked about
  customer 1 or 2 (product A or B): asked about customer 1, or about product A, it
  returns the queried entity itself and omits its only neighbour.
\<close>

theorem similar_returns_self:
  "snd (fit nmf_fit (RecommenderEngine 10 10) (prepare_user_item_matrix txs_twins)) = None
   \<and> get_similar_users
       (fst (fit nmf_fit (RecommenderEngine 10 10) (prepare_user_item_matrix txs_twins))) 1 1
     = Inr [(1, 1)]
   \<and> get_similar_users
       (fst (fit nmf_fit (RecommenderEngine 10 10) (prepare_user_item_matrix txs_twins))) 2 1
     = Inr [(1, 1)]
   \<and> get_similar_products
       (fst (fit nmf_fit (RecommenderEngine 10 10) (prepare_user_item_matrix txs_twins))) ''A'' 1
     = Inr [(''A'', 1)]
   \<and> get_similar_products
       (fst (fit nmf_fit (RecommenderEngine 10 10) (prepare_user_item_matrix txs_twins))) ''B'' 1
     = Inr [(''A'', 1)]"
proof -
  let ?D = "prepare_user_item_matrix txs_twins"
  let ?E = "fst (fit nmf_fit (RecommenderEngine 10 10) ?D)"
  have wf: "wf_df ?D" by (simp add: uim_twins wf_df_def)
  have ok: "fit nmf_fit (RecommenderEngine 10 10) ?D = (?E, None)"
    using fit_twins_ok [of nmf_fit] by (metis prod.collapse)
  have ones: "cosine_similarity [[1, 1], [1, 1]] = [[1, 1], [1, 1]]"
    by (simp add: cosine_similarity_def cosine_def l2_norm_def dot_def)
  have uids: "user_ids ?E = Some [1, 2]"
    using fit_fitted(2) [OF wf ok] by (simp add: uim_twins)
  have iids: "item_ids ?E = Some [''A'', ''B'']"
    using fit_fitted(3) [OF wf ok] by (simp add: uim_twins)
  have usim: "user_similarity ?E = Some [[1, 1], [1, 1]]"
    using fit_fitted(4) [OF wf ok] by (simp add: uim_twins ones)
  have "np_transpose (Suc (Suc 0)) [[1, 1], [1, 1::real]] = [[1, 1], [1, 1]]"
    by (simp add: np_transpose_def)
  then have isim: "item_similarity ?E = Some [[1, 1], [1, 1]]"
    using fit_fitted(5) [OF wf ok] by (simp add: uim_twins ones)
  have "get_similar_users ?E 1 1 = Inr [(1, 1)]"
    by (simp add: get_similar_users_def uids usim index_of_def argsort_def py_slice_def
        py_bound_def Let_def)
  moreover have "get_similar_users ?E 2 1 = Inr [(1, 1)]"
    by (simp add: get_similar_users_def uids usim index_of_def argsort_def py_slice_def
        py_bound_def Let_def)
  moreover have "get_similar_products ?E ''A'' 1 = Inr [(''A'', 1)]"
    by (simp add: get_similar_products_def iids isim index_of_def argsort_def py_slice_def
        py_bound_def Let_def)
  moreover have "get_similar_products ?E ''B'' 1 = Inr [(''A'', 1)]"
    by (simp add: get_similar_products_def iids isim index_of_def argsort_def py_slice_def
        py_bound_def Let_def)
  ultimately show ?thesis using fit_twins_ok [of nmf_fit] by simp
qed

subsection \<open>The basket matrix\<close>

lemma basket_four:
  "prepare_basket_data txs_four_orders =
     \<lparr>df_index = [1, 2, 3, 4], df_columns = [''A'', ''B'', ''C''],
      df_values = [[1, 1, 0], [1, 1, 0], [1, 0, 1], [0, 1, 1]]\<rparr>"
  by (simp add: prepare_basket_data_def fillna_def unstack_def group_sum_def
      txs_four_orders_def Let_def)

lemma basket_labels:
  "df_index (prepare_basket_data df) = sort (remdups (map order_id df))"
  "df_columns (prepare_basket_data df) = sort (remdups (map tx_product df))"
  by (simp_all add: prepare_basket_data_def fillna_def unstack_def Let_def)

lemma basket_cell:
  assumes "i < length (df_index (prepare_basket_data df))"
    and "j < length (df_columns (prepare_basket_data df))"
  shows "df_values (prepare_basket_data df) ! i ! j =
     (if 0 < order_quantity df (df_index (prepare_basket_data df) ! i)
               (df_columns (prepare_basket_data df) ! j) then 1 else 0)"
  using assms
  by (simp add: prepare_basket_data_def fillna_def unstack_def Let_def group_sum_def
      order_quantity_def)

lemma basket_wf: "wf_df (prepare_basket_data df)"
  by (simp add: prepare_basket_data_def fillna_def unstack_def Let_def wf_df_def list_all_iff)

text \<open>
  C5, as amended. For every transaction list, the basket matrix is well shaped; the cell
  of an order and a product is 1 exactly when the summed quantity of that product in
  that order is greater than 0, and 0 otherwise; the row labels are the order ids and the
  column labels the products that occur in the transactions; and a column contains a 1
  exactly when some order has a positive summed quantity of its product.
\<close>

theorem basket_cells_and_columns:
  assumes "B = prepare_basket_data df"
    and "i < length (df_index B)" and "j < length (df_columns B)"
  shows "wf_df B
       \<and> df_values B ! i ! j =
           (if 0 < order_quantity df (df_index B ! i) (df_columns B ! j) then 1 else 0)
       \<and> set (df_index B) = order_id ` set df
       \<and> set (df_columns B) = tx_product ` set df
       \<and> ((1 \<in> set (column B j)) \<longleftrightarrow>
            (\<exists>ord \<in> order_id ` set df. 0 < order_quantity df ord (df_columns B ! j)))"
proof -
  have cell: "df_values B ! k ! j =
           (if 0 < order_quantity df (df_index B ! k) (df_columns B ! j) then 1 else 0)"
    if "k < length (df_index B)" for k
    unfolding assms(1) using that assms(3) unfolding assms(1) by (rule basket_cell)
  have wf: "wf_df B" unfolding assms(1) by (rule basket_wf)
  have idx: "set (df_index B) = order_id ` set df" by (simp add: assms(1) basket_labels)
  have cols: "set (df_columns B) = tx_product ` set df" by (simp add: assms(1) basket_labels)
  have len: "length (df_values B) = length (df_index B)" using wf by (simp add: wf_df_def)
  have "(1 \<in> set (column B j)) \<longleftrightarrow> (\<exists>k<length (column B j). column B j ! k = 1)"
    by (metis in_set_conv_nth)
  also have "\<dots> \<longleftrightarrow> (\<exists>k<length (df_index B). df_values B ! k ! j = 1)"
    by (auto simp: column_def len)
  also have "\<dots> \<longleftrightarrow> (\<exists>k<length (df_index B). 0 < order_quantity df (df_index B ! k) (df_columns B ! j))"
    using cell by (auto split: if_splits)
  also have "\<dots> \<longleftrightarrow> (\<exists>ord \<in> set (df_index B). 0 < order_quantity df ord (df_columns B ! j))"
    by (metis in_set_conv_nth)
  finally show ?thesis using wf cell [OF assms(2)] idx cols by simp
qed

text \<open>
  The claim as stated fails: a product whose only line has quantity zero is materialised
  as a column, and that column is all zero.
\<close>

theorem all_zero_column_counterexample:
  "prepare_basket_data txs_zero_line =
     \<lparr>df_index = [1], df_columns = [''A''], df_values = [[0]]\<rparr>"
  by (simp add: prepare_basket_data_def fillna_def unstack_def group_sum_def
      txs_zero_line_def Let_def)

theorem basket_cells_and_columns_witness:
  "0 < length (df_index (prepare_basket_data txs_four_orders))
   \<and> 2 < length (df_columns (prepare_basket_data txs_four_orders))
   \<and> df_values (prepare_basket_data txs_four_orders) ! 0 ! 2 = 0
   \<and> order_quantity txs_four_orders 1 ''C'' = 0
   \<and> 1 \<in> set (column (prepare_basket_data txs_four_orders) 2)"
proof -
  have h: "(0::nat) < length (df_index (prepare_basket_data txs_four_orders))"
    "(2::nat) < length (df_columns (prepare_basket_data txs_four_orders))"
    by (simp_all add: basket_four)
  have q: "order_quantity txs_four_orders 1 ''C'' = 0"
    by (simp add: order_quantity_def txs_four_orders_def)
  have c: "1 \<in> set (column (prepare_basket_data txs_four_orders) 2)"
    by (simp add: basket_four column_def)
  show ?thesis
    using h q c basket_cells_and_columns [OF refl h]
    by (simp add: basket_four)
qed

subsection \<open>Mining\<close>

lemma apriori_four:
  "apriori (prepare_basket_data txs_four_orders) (1/2) =
     [(3/4, [''A'']), (3/4, [''B'']), (1/2, [''C'']), (1/2, [''A'', ''B''])]"
  by (simp add: basket_four apriori_def apriori_levels.simps extend_itemsets_def support_of_def
      row_has_def index_of_def Let_def)

lemma support_of_cong: "set X = set Y \<Longrightarrow> support_of b X = support_of b Y"
  by (simp add: support_of_def list_all_iff)

lemma apriori_levels_sound:
  "(s, items) \<in> set (apriori_levels basket ms k prev) \<Longrightarrow>
     s = support_of basket items \<and> ms \<le> s"
proof (induction basket ms k prev rule: apriori_levels.induct)
  case (1 basket ms k prev)
  define cands where "cands = filter (\<lambda>c. list_all (\<lambda>x. remove1 x c \<in> set prev) c)
                    (extend_itemsets (df_columns basket) prev)"
  define kept where "kept = filter (\<lambda>(s, c). ms \<le> s) (map (\<lambda>c. (support_of basket c, c)) cands)"
  have kept: "s' = support_of basket c \<and> ms \<le> s'" if "(s', c) \<in> set kept" for s' c
    using that by (auto simp: kept_def)
  have eq: "apriori_levels basket ms k prev =
      (if kept = [] \<or> length (df_columns basket) \<le> k then kept
       else kept @ apriori_levels basket ms (Suc k) (map snd kept))"
    unfolding kept_def cands_def by (subst apriori_levels.simps) (simp add: Let_def)
  show ?case
  proof (cases "kept = [] \<or> length (df_columns basket) \<le> k")
    case True
    then have "(s, items) \<in> set kept" using "1.prems" eq by simp
    then show ?thesis by (rule kept)
  next
    case False
    then have "(s, items) \<in> set kept \<or>
         (s, items) \<in> set (apriori_levels basket ms (Suc k) (map snd kept))"
      using "1.prems" eq by auto
    then show ?thesis
    proof
      assume "(s, items) \<in> set kept"
      then show ?thesis by (rule kept)
    next
      assume "(s, items) \<in> set (apriori_levels basket ms (Suc k) (map snd kept))"
      then show ?thesis
        using "1.IH" [OF cands_def kept_def False] by simp
    qed
  qed
qed

lemma apriori_sound:
  "s = support_of basket items \<and> ms \<le> s" if "(s, items) \<in> set (apriori basket ms)"
proof (cases "df_index basket = []")
  case True
  then show ?thesis using that by (simp add: apriori_def)
next
  case False
  then have "(s, items) \<in> set (apriori_levels basket ms 1 [[]])"
    using that by (simp add: apriori_def)
  then show ?thesis by (rule apriori_levels_sound)
qed

lemma table_support_Some:
  assumes "table_support table X = Some s"
  shows "\<exists>items. (s, items) \<in> set table \<and> set items = set X"
proof -
  from assms obtain e where "find (\<lambda>(s, items). set items = set X) table = Some e" "fst e = s"
    by (auto simp: table_support_def)
  then have "e \<in> set table" "set (snd e) = set X"
    by (auto simp: find_Some_iff case_prod_beta)
  then show ?thesis using \<open>fst e = s\<close> by (metis prod.collapse)
qed

lemma in_association_rules:
  assumes "r \<in> set (association_rules table mc)"
  shows "\<exists>sI items sA sC. (sI, items) \<in> set table \<and> 2 \<le> length items
           \<and> antecedents r \<in> set (subseqs items)
           \<and> antecedents r \<noteq> [] \<and> antecedents r \<noteq> items
           \<and> consequents r = filter (\<lambda>x. x \<notin> set (antecedents r)) items
           \<and> table_support table (antecedents r) = Some sA
           \<and> table_support table (consequents r) = Some sC
           \<and> support r = sI \<and> confidence r = sI / sA \<and> lift r = sI / sA / sC
           \<and> mc \<le> confidence r"
proof -
  from assms obtain sI items where e: "(sI, items) \<in> set table" "2 \<le> length items"
    and r: "r \<in> set (rules_of_itemset table mc (sI, items))"
    by (auto simp: association_rules_def)
  from r obtain A where A: "A \<in> set (subseqs items)" "A \<noteq> []" "A \<noteq> items"
    and rA: "r \<in> set (case (table_support table A,
                             table_support table (filter (\<lambda>x. x \<notin> set A) items)) of
                              (Some sA, Some sC) \<Rightarrow>
                                if mc \<le> sI / sA then
                                  [\<lparr>antecedents = A,
                                    consequents = filter (\<lambda>x. x \<notin> set A) items,
                                    antecedent_support = sA,
                                    consequent_support = sC, support = sI,
                                    confidence = sI / sA, lift = sI / sA / sC\<rparr>]
                                else []
                            | _ \<Rightarrow> [])"
    by (auto simp: rules_of_itemset_def Let_def)
  from rA obtain sA sC where s: "table_support table A = Some sA"
    "table_support table (filter (\<lambda>x. x \<notin> set A) items) = Some sC"
    "mc \<le> sI / sA"
    "r = \<lparr>antecedents = A, consequents = filter (\<lambda>x. x \<notin> set A) items,
          antecedent_support = sA, consequent_support = sC, support = sI,
          confidence = sI / sA, lift = sI / sA / sC\<rparr>"
    by (auto split: option.splits if_splits)
  show ?thesis
    using e A s(1,2,3) by (intro exI [of _ sI] exI [of _ items] exI [of _ sA] exI [of _ sC])
      (simp add: s(4))
qed

lemma subseq_split_set:
  assumes "A \<in> set (subseqs items)"
  shows "set (A @ filter (\<lambda>x. x \<notin> set A) items) = set items"
proof -
  have "set A \<subseteq> set items"
    using assms by (metis subseqs_powset PowD image_eqI)
  then show ?thesis by auto
qed

text \<open>
  C6. With a positive minimum support, for every rule kept by \<^verbatim>\<open>MBAEngine.fit\<close> the
  antecedent and the consequent have positive support; the rule's support is the support
  of antecedent and consequent together; its confidence is that support divided by the
  support of the antecedent; its lift is the confidence divided by the support of the
  consequent; and its confidence is at least the minimum confidence. Supports are
  fractions of orders of the basket matrix, in exact arithmetic.
\<close>

theorem rule_validity:
  assumes "0 < min_support self" and "rules (mba_fit self basket) = Some rs" and "r \<in> set rs"
  shows "0 < support_of basket (antecedents r) \<and> 0 < support_of basket (consequents r)
       \<and> support r = support_of basket (antecedents r @ consequents r)
       \<and> confidence r = support_of basket (antecedents r @ consequents r)
                          / support_of basket (antecedents r)
       \<and> lift r = confidence r / support_of basket (consequents r)
       \<and> min_confidence self \<le> confidence r"
proof -
  define table where "table = apriori basket (min_support self)"
  have "r \<in> set (association_rules table (min_confidence self))"
    using assms(2,3) by (auto simp: mba_fit_def Let_def table_def split: if_splits)
  from in_association_rules [OF this]
  obtain sI items sA sC where e: "(sI, items) \<in> set table"
    and A: "antecedents r \<in> set (subseqs items)"
    and C: "consequents r = filter (\<lambda>x. x \<notin> set (antecedents r)) items"
    and sA: "table_support table (antecedents r) = Some sA"
    and sC: "table_support table (consequents r) = Some sC"
    and m: "support r = sI" "confidence r = sI / sA" "lift r = sI / sA / sC"
      "min_confidence self \<le> confidence r"
    by blast
  have sI: "sI = support_of basket (antecedents r @ consequents r)"
  proof -
    have "sI = support_of basket items" using apriori_sound e unfolding table_def by blast
    also have "\<dots> = support_of basket (antecedents r @ consequents r)"
      unfolding C by (rule support_of_cong) (simp only: subseq_split_set [OF A])
    finally show ?thesis .
  qed
  from table_support_Some [OF sA] obtain IA where IA: "(sA, IA) \<in> set table"
    "set IA = set (antecedents r)" by blast
  then have sA': "sA = support_of basket (antecedents r)" "min_support self \<le> sA"
    using apriori_sound [of sA IA basket "min_support self"] support_of_cong [of IA "antecedents r" basket]
    unfolding table_def by simp_all
  from table_support_Some [OF sC] obtain IC where IC: "(sC, IC) \<in> set table"
    "set IC = set (consequents r)" by blast
  then have sC': "sC = support_of basket (consequents r)" "min_support self \<le> sC"
    using apriori_sound [of sC IC basket "min_support self"] support_of_cong [of IC "consequents r" basket]
    unfolding table_def by simp_all
  show ?thesis
    using assms(1) m sI sA' sC' by simp
qed

lemma rules_four:
  "rules (mba_fit (MBAEngine (1/2) (1/2)) (prepare_basket_data txs_four_orders)) =
     Some [\<lparr>antecedents = [''A''], consequents = [''B''], antecedent_support = 3/4,
             consequent_support = 3/4, support = 1/2, confidence = 2/3, lift = 8/9\<rparr>,
           \<lparr>antecedents = [''B''], consequents = [''A''], antecedent_support = 3/4,
             consequent_support = 3/4, support = 1/2, confidence = 2/3, lift = 8/9\<rparr>]"
  by (simp add: mba_fit_def MBAEngine_def apriori_four association_rules_def rules_of_itemset_def
      table_support_def Let_def)

theorem rule_validity_witness:
  "0 < min_support (MBAEngine (1/2) (1/2))
   \<and> rules (mba_fit (MBAEngine (1/2) (1/2)) (prepare_basket_data txs_four_orders)) =
       Some [\<lparr>antecedents = [''A''], consequents = [''B''], antecedent_support = 3/4,
               consequent_support = 3/4, support = 1/2, confidence = 2/3, lift = 8/9\<rparr>,
             \<lparr>antecedents = [''B''], consequents = [''A''], antecedent_support = 3/4,
               consequent_support = 3/4, support = 1/2, confidence = 2/3, lift = 8/9\<rparr>]
   \<and> 0 < support_of (prepare_basket_data txs_four_orders) [''A'']
   \<and> 0 < support_of (prepare_basket_data txs_four_orders) [''B'']
   \<and> 1/2 = support_of (prepare_basket_data txs_four_orders) [''A'', ''B'']
   \<and> 2/3 = support_of (prepare_basket_data txs_four_orders) [''A'', ''B'']
             / support_of (prepare_basket_data txs_four_orders) [''A'']
   \<and> 8/9 = (2/3) / support_of (prepare_basket_data txs_four_orders) [''B'']
   \<and> min_confidence (MBAEngine (1/2) (1/2)) \<le> 2/3"
proof -
  let ?r = "\<lparr>antecedents = [''A''], consequents = [''B''], antecedent_support = 3/4,
             consequent_support = 3/4, support = 1/2, confidence = 2/3, lift = 8/9\<rparr>"
  let ?B = "prepare_basket_data txs_four_orders"
  have h: "0 < min_support (MBAEngine (1/2) (1/2))"
    by (simp add: MBAEngine_def)
  have sel: "antecedents ?r = [''A'']" "consequents ?r = [''B'']" "support ?r = 1/2"
    "confidence ?r = 2/3" "lift ?r = 8/9" "[''A''] @ [''B''] = [''A'', ''B'']"
    by simp_all
  have "0 < support_of ?B (antecedents ?r)
      \<and> 0 < support_of ?B (consequents ?r)
      \<and> support ?r = support_of ?B (antecedents ?r @ consequents ?r)
      \<and> confidence ?r = support_of ?B (antecedents ?r @ consequents ?r)
                          / support_of ?B (antecedents ?r)
      \<and> lift ?r = confidence ?r / support_of ?B (consequents ?r)
      \<and> min_confidence (MBAEngine (1/2) (1/2)) \<le> confidence ?r"
    by (rule rule_validity [OF h rules_four]) simp
  then have "0 < support_of ?B [''A'']
      \<and> 0 < support_of ?B [''B'']
      \<and> 1/2 = support_of ?B [''A'', ''B'']
      \<and> 2/3 = support_of ?B [''A'', ''B''] / support_of ?B [''A'']
      \<and> 8/9 = (2/3) / support_of ?B [''B'']
      \<and> min_confidence (MBAEngine (1/2) (1/2)) \<le> 2/3"
    unfolding sel .
  with h rules_four show ?thesis by (intro conjI) (elim conjE, assumption)+
qed

text \<open>
  C9. Fitting the mining engine on a basket matrix without orders, such as the one
  built from no transactions, returns an engine whose frequent-itemset table and rule
  table are both empty.
\<close>

theorem empty_basket_fit:
  assumes "df_index basket = []"
  shows "frequent_itemsets (mba_fit self basket) = Some []
       \<and> rules (mba_fit self basket) = Some []
       \<and> prepare_basket_data [] = \<lparr>df_index = [], df_columns = [], df_values = []\<rparr>"
  using assms
  by (simp add: mba_fit_def apriori_def Let_def prepare_basket_data_def fillna_def unstack_def)

theorem empty_basket_fit_witness:
  "df_index (prepare_basket_data []) = []
   \<and> frequent_itemsets (mba_fit (MBAEngine (1/10) (1/2)) (prepare_basket_data [])) = Some []
   \<and> rules (mba_fit (MBAEngine (1/10) (1/2)) (prepare_basket_data [])) = Some []"
proof -
  have h: "df_index (prepare_basket_data []) = []"
    by (simp add: prepare_basket_data_def fillna_def unstack_def)
  have "frequent_itemsets (mba_fit (MBAEngine (1/10) (1/2)) (prepare_basket_data [])) = Some []
       \<and> rules (mba_fit (MBAEngine (1/10) (1/2)) (prepare_basket_data [])) = Some []
       \<and> prepare_basket_data [] = \<lparr>df_index = [], df_columns = [], df_values = []\<rparr>"
    by (rule empty_basket_fit [OF h])
  with h show ?thesis by (intro conjI) (elim conjE, assumption)+
qed

subsection \<open>Queries on an empty or absent rule set\<close>

text \<open>
  C7. When the rule set is empty or absent, \<^verbatim>\<open>get_top_rules\<close>,
  \<^verbatim>\<open>get_product_recommendations\<close> and \<^verbatim>\<open>get_frequently_bought_together\<close> return an
  empty result (no exception, for every count, metric name, order and product), and
  \<^verbatim>\<open>get_rules_summary\<close> returns exactly the four keys count, mean confidence, mean lift
  and max lift, all zero, with the min/max confidence keys absent.
\<close>

theorem empty_rule_set_queries:
  assumes "no_rules self"
  shows "get_top_rules self n metric ascending = Inr []
       \<and> get_product_recommendations self p k = []
       \<and> get_frequently_bought_together self m = []
       \<and> get_rules_summary self ''total_rules'' = Some 0
       \<and> get_rules_summary self ''avg_confidence'' = Some 0
       \<and> get_rules_summary self ''avg_lift'' = Some 0
       \<and> get_rules_summary self ''max_lift'' = Some 0
       \<and> get_rules_summary self ''min_confidence'' = None
       \<and> get_rules_summary self ''max_confidence'' = None
       \<and> dom (get_rules_summary self) =
           {''total_rules'', ''avg_confidence'', ''avg_lift'', ''max_lift''}"
  using assms
  by (auto simp: no_rules_def get_top_rules_def get_product_recommendations_def
      get_frequently_bought_together_def get_rules_summary_def split: option.splits)

theorem empty_rule_set_queries_witness:
  "no_rules (MBAEngine (1/10) (1/2))
   \<and> get_top_rules (MBAEngine (1/10) (1/2)) 10 ''lift'' False = Inr []
   \<and> get_product_recommendations (MBAEngine (1/10) (1/2)) ''Milk'' 5 = []
   \<and> get_frequently_bought_together (MBAEngine (1/10) (1/2)) 10 = []
   \<and> get_rules_summary (MBAEngine (1/10) (1/2)) ''total_rules'' = Some 0
   \<and> get_rules_summary (MBAEngine (1/10) (1/2)) ''min_confidence'' = None"
proof -
  have h: "no_rules (MBAEngine (1/10) (1/2))"
    by (simp add: no_rules_def MBAEngine_def)
  show ?thesis
    using h empty_rule_set_queries [OF h, of 10 "''lift''" False "''Milk''" 5 10] by simp
qed

end
